theory Spec2Isabelle
  imports Complex_Main "HOL-Library.Log_Nat"
begin

section \<open>JavaScript values, as the handler meets them\<close>

text \<open>
  The handler of \<^verbatim>\<open>netlify/functions/recordings.js\<close> works on three kinds of data:
  the strings of \<^verbatim>\<open>process.env\<close>, the values that \<^verbatim>\<open>JSON.parse\<close> builds from the
  two upstream response bodies, and the HTML string it concatenates. Strings are byte
  lists (UTF-8). A JavaScript exception is a value of \<open>js_error\<close>; a computation that
  may throw returns \<open>js_error + 'a\<close>, with \<open>Inl\<close> for the throw.
\<close>

datatype js_error = TypeError | SyntaxError | RangeError | NetworkError string

text \<open>
  A Number is an IEEE double. \<open>Fin q\<close> is the finite double whose value is the rational
  \<open>q\<close>; the two zeros are one value here, since the handler only compares numbers with
  \<^verbatim>\<open>===\<close> (under which \<^verbatim>\<open>-0 === 0\<close>) and never divides.
\<close>

datatype jsnum = NaN | PosInf | NegInf | Fin rat

datatype jsval =
    Undefined
  | Null
  | Bool bool
  | Num jsnum
  | Str string
  | Arr "jsval list"
  | Obj "(string \<times> jsval) list"

text \<open>\<^verbatim>\<open>a === b\<close> on two Numbers: \<^verbatim>\<open>NaN\<close> equals nothing, itself included.\<close>

fun num_eq :: "jsnum \<Rightarrow> jsnum \<Rightarrow> bool" where
  "num_eq NaN _ = False"
| "num_eq _ NaN = False"
| "num_eq a b = (a = b)"

text \<open>
  \<^verbatim>\<open>v === n\<close> for a value \<open>v\<close> and a Number \<open>n\<close>: strict equality never converts, so
  a value of another type is unequal.
\<close>

fun strict_eq_num :: "jsval \<Rightarrow> jsnum \<Rightarrow> bool" where
  "strict_eq_num (Num a) n = num_eq a n"
| "strict_eq_num _ n = False"

text \<open>ToBoolean: what \<^verbatim>\<open>!v\<close>, \<^verbatim>\<open>v || d\<close> and \<^verbatim>\<open>if (v)\<close> test.\<close>

fun truthy :: "jsval \<Rightarrow> bool" where
  "truthy Undefined = False"
| "truthy Null = False"
| "truthy (Bool b) = b"
| "truthy (Num NaN) = False"
| "truthy (Num (Fin q)) = (q \<noteq> 0)"
| "truthy (Num _) = True"
| "truthy (Str s) = (s \<noteq> [])"
| "truthy (Arr _) = True"
| "truthy (Obj _) = True"

text \<open>\<^verbatim>\<open>v || d\<close>.\<close>

definition or_else :: "jsval \<Rightarrow> jsval \<Rightarrow> jsval" where
  "or_else v d = (if truthy v then v else d)"

text \<open>
  \<^verbatim>\<open>v.k\<close> for the property names the handler reads (\<^verbatim>\<open>access_token\<close>, \<^verbatim>\<open>meetings\<close>,
  \<^verbatim>\<open>id\<close>, \<^verbatim>\<open>start_time\<close>, \<^verbatim>\<open>topic\<close>, \<^verbatim>\<open>recording_files\<close>, \<^verbatim>\<open>play_url\<close>,
  \<^verbatim>\<open>file_type\<close>, \<^verbatim>\<open>recording_start\<close>): none of them is a member of a built-in
  prototype, so the read finds an own property of an object or \<^verbatim>\<open>undefined\<close>. Reading a
  property of \<^verbatim>\<open>null\<close> or \<^verbatim>\<open>undefined\<close> throws a TypeError. An object holds one entry
  per key, as \<^verbatim>\<open>JSON.parse\<close> leaves it.
\<close>

fun get_prop :: "jsval \<Rightarrow> string \<Rightarrow> js_error + jsval" where
  "get_prop Undefined k = Inl TypeError"
| "get_prop Null k = Inl TypeError"
| "get_prop (Obj kvs) k = (case map_of kvs k of None \<Rightarrow> Inr Undefined | Some v \<Rightarrow> Inr v)"
| "get_prop _ k = Inr Undefined"

text \<open>Sequencing of computations that may throw: the first throw ends the sequence.\<close>

definition and_then :: "'e + 'a \<Rightarrow> ('a \<Rightarrow> 'e + 'b) \<Rightarrow> 'e + 'b" where
  "and_then m f = (case m of Inl e \<Rightarrow> Inl e | Inr x \<Rightarrow> f x)"

fun sequence :: "('e + 'a) list \<Rightarrow> 'e + 'a list" where
  "sequence [] = Inr []"
| "sequence (m # ms) =
     (case m of Inl e \<Rightarrow> Inl e
      | Inr x \<Rightarrow> (case sequence ms of Inl e \<Rightarrow> Inl e | Inr xs \<Rightarrow> Inr (x # xs)))"

text \<open>\<^verbatim>\<open>Array.prototype.join(",")\<close> on strings already converted.\<close>

fun join_comma :: "string list \<Rightarrow> string" where
  "join_comma [] = []"
| "join_comma [s] = s"
| "join_comma (s # t # ss) = s @ '','' @ join_comma (t # ss)"

text \<open>
  ToString, as a template literal \<^verbatim>\<open>${v}\<close> and a computed property key \<^verbatim>\<open>o[v]\<close> apply
  it. The digits of a Number are the platform's (Number::toString), passed as \<open>nts\<close>.
  An array joins its elements with commas, \<^verbatim>\<open>null\<close> and \<^verbatim>\<open>undefined\<close> elements as
  empty strings. A parsed object has no callable \<^verbatim>\<open>toString\<close> of its own: without a
  \<^verbatim>\<open>toString\<close> key it inherits \<^verbatim>\<open>Object.prototype.toString\<close>; with one, the own
  property (never callable) hides the inherited method, \<^verbatim>\<open>valueOf\<close> gives no primitive
  either, and the conversion throws a TypeError.
\<close>

fun js_ToString :: "(jsnum \<Rightarrow> string) \<Rightarrow> jsval \<Rightarrow> js_error + string" where
  "js_ToString nts Undefined = Inr ''undefined''"
| "js_ToString nts Null = Inr ''null''"
| "js_ToString nts (Bool b) = Inr (if b then ''true'' else ''false'')"
| "js_ToString nts (Num n) = Inr (nts n)"
| "js_ToString nts (Str s) = Inr s"
| "js_ToString nts (Arr xs) =
     and_then
       (sequence (map (\<lambda>x. if x = Null \<or> x = Undefined then Inr [] else js_ToString nts x) xs))
       (\<lambda>ss. Inr (join_comma ss))"
| "js_ToString nts (Obj kvs) =
     (if map_of kvs ''toString'' = None then Inr ''[object Object]'' else Inl TypeError)"

section \<open>Built-in functions the handler calls\<close>

subsection \<open>\<^verbatim>\<open>Number(string)\<close>\<close>

text \<open>
  ECMAScript's StringToNumber: white space is trimmed on both sides, the empty string
  is \<open>0\<close>, a decimal literal may carry a sign, a fraction and an exponent,
  \<^verbatim>\<open>Infinity\<close> may carry a sign, and \<^verbatim>\<open>0x\<close>, \<^verbatim>\<open>0o\<close>, \<^verbatim>\<open>0b\<close> literals carry none;
  anything else is \<^verbatim>\<open>NaN\<close>. The mathematical value is rounded to the nearest double,
  ties to even.
\<close>

definition pow2 :: "int \<Rightarrow> rat" where
  "pow2 e = (if 0 \<le> e then 2 ^ nat e else 1 / 2 ^ nat (- e))"

definition pow10 :: "int \<Rightarrow> rat" where
  "pow10 e = (if 0 \<le> e then 10 ^ nat e else 1 / 10 ^ nat (- e))"

text \<open>For \<open>0 < q\<close>: the \<open>e\<close> with \<open>2 ^ e \<le> q < 2 ^ (e + 1)\<close>.\<close>

definition floor_log2 :: "rat \<Rightarrow> int" where
  "floor_log2 q =
     (let (n, d) = quotient_of q; k = bitlen n - bitlen d
      in if pow2 k \<le> q then k else k - 1)"

definition round_half_even :: "rat \<Rightarrow> int" where
  "round_half_even q =
     (let f = \<lfloor>q\<rfloor>; r = q - of_int f
      in if r < 1 / 2 then f else if 1 / 2 < r then f + 1 else if even f then f else f + 1)"

text \<open>
  The double nearest to \<open>q\<close>: 53 significant bits, the exponent of the last place never
  below \<open>-1074\<close> (subnormals), infinity from \<open>2 ^ 1024\<close> on.
\<close>

definition to_double :: "rat \<Rightarrow> jsnum" where
  "to_double q =
     (if q = 0 then Fin 0
      else
        let a = \<bar>q\<bar>;
            e = max (floor_log2 a - 52) (- 1074);
            m = round_half_even (a / pow2 e);
            r = of_int m * pow2 e
        in if pow2 1024 \<le> r then (if 0 < q then PosInf else NegInf)
           else Fin (if 0 < q then r else - r))"

text \<open>
  StrWhiteSpaceChar in UTF-8: TAB, LF, VT, FF, CR, SP, U+00A0, U+1680, U+2000 to U+200A,
  U+2028, U+2029, U+202F, U+205F, U+3000 and U+FEFF.
\<close>

fun strip_ws :: "string \<Rightarrow> string" where
  "strip_ws [] = []"
| "strip_ws (c # cs) =
     (if c \<in> {CHR 0x09, CHR 0x0A, CHR 0x0B, CHR 0x0C, CHR 0x0D, CHR 0x20} then strip_ws cs
      else if c = CHR 0xC2 then
        (case cs of d # r \<Rightarrow> if d = CHR 0xA0 then strip_ws r else c # cs | [] \<Rightarrow> c # cs)
      else if c \<in> {CHR 0xE1, CHR 0xE2, CHR 0xE3, CHR 0xEF} then
        (case cs of
           d # f # r \<Rightarrow>
             if (c = CHR 0xE1 \<and> d = CHR 0x9A \<and> f = CHR 0x80)
              \<or> (c = CHR 0xE2 \<and> d = CHR 0x80 \<and>
                  ((128::nat) \<le> of_char f \<and> (of_char f :: nat) \<le> 138
                   \<or> f \<in> {CHR 0xA8, CHR 0xA9, CHR 0xAF}))
              \<or> (c = CHR 0xE2 \<and> d = CHR 0x81 \<and> f = CHR 0x9F)
              \<or> (c = CHR 0xE3 \<and> d = CHR 0x80 \<and> f = CHR 0x80)
              \<or> (c = CHR 0xEF \<and> d = CHR 0xBB \<and> f = CHR 0xBF)
             then strip_ws r else c # cs
         | _ \<Rightarrow> c # cs)
      else c # cs)"

definition is_digit :: "char \<Rightarrow> bool" where
  "is_digit c = ((48::nat) \<le> of_char c \<and> (of_char c :: nat) \<le> 57)"

text \<open>The value of a digit in base up to 16, if it is one.\<close>

definition digit_of :: "char \<Rightarrow> nat option" where
  "digit_of c =
     (let n = (of_char c :: nat)
      in if 48 \<le> n \<and> n \<le> 57 then Some (n - 48)
         else if 97 \<le> n \<and> n \<le> 102 then Some (n - 87)
         else if 65 \<le> n \<and> n \<le> 70 then Some (n - 55)
         else None)"

definition is_digit_in :: "nat \<Rightarrow> char \<Rightarrow> bool" where
  "is_digit_in b c = (case digit_of c of None \<Rightarrow> False | Some d \<Rightarrow> d < b)"

definition digits_val :: "nat \<Rightarrow> string \<Rightarrow> int" where
  "digits_val b ds =
     foldl (\<lambda>a c. int b * a + (case digit_of c of None \<Rightarrow> 0 | Some d \<Rightarrow> int d)) 0 ds"

text \<open>
  NonDecimalIntegerLiteral: the prefix, then at least one digit of the base. The result is
  the value and what follows the digits.
\<close>

definition parse_nondecimal :: "string \<Rightarrow> (rat \<times> string) option" where
  "parse_nondecimal s =
     (case s of
        z # p # r \<Rightarrow>
          (let b = (if p \<in> {CHR ''x'', CHR ''X''} then 16
                    else if p \<in> {CHR ''o'', CHR ''O''} then 8
                    else if p \<in> {CHR ''b'', CHR ''B''} then 2 else (0::nat));
               ds = takeWhile (is_digit_in b) r
           in if z = CHR ''0'' \<and> b \<noteq> 0 \<and> ds \<noteq> []
              then Some (of_int (digits_val b ds), dropWhile (is_digit_in b) r)
              else None)
      | _ \<Rightarrow> None)"

text \<open>ExponentPart, when one is there: \<^verbatim>\<open>e\<close> or \<^verbatim>\<open>E\<close>, a sign or none, digits.\<close>

definition parse_exponent :: "string \<Rightarrow> int \<times> string" where
  "parse_exponent s =
     (case s of
        x # r \<Rightarrow>
          if x \<in> {CHR ''e'', CHR ''E''} then
            (let (neg, r') = (case r of
                                g # t \<Rightarrow> if g = CHR ''-'' then (True, t)
                                         else if g = CHR ''+'' then (False, t) else (False, r)
                              | [] \<Rightarrow> (False, r));
                 ds = takeWhile is_digit r'
             in if ds = [] then (0, s)
                else ((if neg then - digits_val 10 ds else digits_val 10 ds),
                      dropWhile is_digit r'))
          else (0, s)
      | [] \<Rightarrow> (0, s))"

text \<open>
  StrUnsignedDecimalLiteral without \<^verbatim>\<open>Infinity\<close>: digits with an optional fraction, or a
  fraction that starts with the point, then an optional exponent.
\<close>

definition parse_unsigned_decimal :: "string \<Rightarrow> (rat \<times> string) option" where
  "parse_unsigned_decimal s =
     (let ip = takeWhile is_digit s; r1 = dropWhile is_digit s;
          (fp, r2) = (case r1 of
                        c # t \<Rightarrow> if c = CHR ''.'' then (takeWhile is_digit t, dropWhile is_digit t)
                                 else ([], r1)
                      | [] \<Rightarrow> ([], r1))
      in if ip = [] \<and> fp = [] then None
         else
           let (ex, r3) = parse_exponent r2
           in Some (of_int (digits_val 10 (ip @ fp)) * pow10 (ex - int (length fp)), r3))"

definition parse_decimal :: "string \<Rightarrow> (jsnum \<times> string) option" where
  "parse_decimal s =
     (let (neg, t) = (case s of
                        g # r \<Rightarrow> if g = CHR ''-'' then (True, r)
                                 else if g = CHR ''+'' then (False, r) else (False, s)
                      | [] \<Rightarrow> (False, s))
      in if take 8 t = ''Infinity'' then Some (if neg then NegInf else PosInf, drop 8 t)
         else (case parse_unsigned_decimal t of
                 None \<Rightarrow> None
               | Some (q, r) \<Rightarrow> Some (to_double (if neg then - q else q), r)))"

definition js_Number :: "string \<Rightarrow> jsnum" where
  "js_Number s =
     (let t = strip_ws s
      in if t = [] then Fin 0
         else (case parse_nondecimal t of
                 Some (q, r) \<Rightarrow> if strip_ws r = [] then to_double q else NaN
               | None \<Rightarrow>
                   (case parse_decimal t of
                      Some (v, r) \<Rightarrow> if strip_ws r = [] then v else NaN
                    | None \<Rightarrow> NaN)))"

subsection \<open>\<^verbatim>\<open>Buffer.from(s).toString("base64")\<close> and \<^verbatim>\<open>encodeURIComponent\<close>\<close>

definition b64_digit :: "nat \<Rightarrow> char" where
  "b64_digit n = ''ABCDEFGHIJKLMNOPQRSTUVWXYZabcdefghijklmnopqrstuvwxyz0123456789+/'' ! (n mod 64)"

text \<open>Three bytes give four digits; a last group of one or two bytes is padded with \<^verbatim>\<open>=\<close>.\<close>

fun base64 :: "string \<Rightarrow> string" where
  "base64 [] = []"
| "base64 [a] =
     (let x = (of_char a :: nat) in [b64_digit (x div 4), b64_digit (x mod 4 * 16), CHR ''='', CHR ''=''])"
| "base64 [a, b] =
     (let x = (of_char a :: nat); y = (of_char b :: nat)
      in [b64_digit (x div 4), b64_digit (x mod 4 * 16 + y div 16), b64_digit (y mod 16 * 4), CHR ''=''])"
| "base64 (a # b # c # rest) =
     (let x = (of_char a :: nat); y = (of_char b :: nat); z = (of_char c :: nat)
      in [b64_digit (x div 4), b64_digit (x mod 4 * 16 + y div 16),
          b64_digit (y mod 16 * 4 + z div 64), b64_digit (z mod 64)] @ base64 rest)"

text \<open>
  \<^verbatim>\<open>encodeURIComponent\<close> keeps letters, digits and \<^verbatim>\<open>- _ . ! ~ * ' ( )\<close> and writes every
  other byte of the UTF-8 encoding as \<^verbatim>\<open>%XX\<close>.
\<close>

definition uri_unreserved :: "char \<Rightarrow> bool" where
  "uri_unreserved c =
     (let n = (of_char c :: nat)
      in (48 \<le> n \<and> n \<le> 57) \<or> (65 \<le> n \<and> n \<le> 90) \<or> (97 \<le> n \<and> n \<le> 122)
         \<or> c \<in> {CHR ''-'', CHR ''_'', CHR ''.'', CHR ''!'', CHR ''~'', CHR ''*'', CHR 0x27,
                 CHR ''('', CHR '')''})"

definition hex_digit :: "nat \<Rightarrow> char" where
  "hex_digit n = ''0123456789ABCDEF'' ! (n mod 16)"

definition encodeURIComponent :: "string \<Rightarrow> string" where
  "encodeURIComponent s =
     concat (map (\<lambda>c. if uri_unreserved c then [c]
                       else [CHR ''%'', hex_digit ((of_char c :: nat) div 16),
                             hex_digit ((of_char c :: nat) mod 16)]) s)"

section \<open>The platform: network, clock formatting, console\<close>

text \<open>
  What the handler cannot compute is a parameter: \<open>fetch\<close> answers a request with a
  response or rejects; \<open>toLocaleString v tz\<close> stands for
  \<^verbatim>\<open>new Date(v).toLocaleString("en-US", {year: "numeric", month: "short", day: "numeric",
  hour: "numeric", minute: "2-digit", hour12: true, timeZone: tz})\<close>; \<open>numberToString\<close> is
  Number::toString. A response carries its status and what \<^verbatim>\<open>await res.text()\<close> and
  \<^verbatim>\<open>await res.json()\<close> give: each may reject (a broken connection, a body that is not
  JSON). The handler calls one of the two on a response, never both.
\<close>

record request =
  req_url :: string
  req_method :: "string option"
  req_headers :: "(string \<times> string) list"

record response =
  status :: nat
  res_text :: "js_error + string"
  res_json :: "js_error + jsval"

definition ok :: "response \<Rightarrow> bool" where
  "ok r = (200 \<le> status r \<and> status r \<le> 299)"

record platform =
  fetch :: "request \<Rightarrow> js_error + response"
  toLocaleString :: "jsval \<Rightarrow> string \<Rightarrow> js_error + string"
  numberToString :: "jsnum \<Rightarrow> string"

text \<open>What an invocation does besides returning: the requests it sends and the lines it logs.\<close>

datatype log_arg = LogStr string | LogNum nat | LogErr js_error

datatype event = Fetch request | ConsoleError "log_arg list"

text \<open>The handler's return value; an error response has no \<^verbatim>\<open>headers\<close>.\<close>

record http_response =
  statusCode :: nat
  headers :: "(string \<times> string) list"
  body :: string

text \<open>\<^verbatim>\<open>process.env\<close>: a variable is a string or absent.\<close>

type_synonym env = "string \<Rightarrow> string option"

section \<open>The two handlers\<close>

text \<open>
  The source file holds two copies of the handler. \<open>Plain\<close> is the first (lines 1 to 145):
  every file with a play URL, its raw type and its recording start. \<open>Rich\<close> is the second
  (lines 146 to 382): summary and chat files dropped, the rest sorted and relabelled, a
  refresh link, another style sheet. They differ in the time zone, the page size and the
  HTML; the control flow is the same, line for line.
\<close>

datatype variant = Plain | Rich

definition timeZone :: "variant \<Rightarrow> string" where
  "timeZone V = (case V of Plain \<Rightarrow> ''America/Los_Angeles'' | Rich \<Rightarrow> ''America/Mexico_City'')"

definition page_size :: "variant \<Rightarrow> string" where
  "page_size V = (case V of Plain \<Rightarrow> ''100'' | Rich \<Rightarrow> ''200'')"

definition formatDate :: "variant \<Rightarrow> platform \<Rightarrow> jsval \<Rightarrow> js_error + string" where
  "formatDate V P isoString =
     (if \<not> truthy isoString then Inr [] else toLocaleString P isoString (timeZone V))"

subsection \<open>The template literals\<close>

text \<open>
  The template literal that starts \<^verbatim>\<open>html\<close> (lines 83 to 104, and lines 227 to 325), in
  three parts: the text before the subtitle element, the subtitle element with
  \<^verbatim>\<open>${MEETING_ID}\<close> in it, and the text after it.
\<close>

definition page_top :: "variant \<Rightarrow> string" where
  \<open>page_top V =
     (case V of
        Plain \<Rightarrow>
          ''\<newline>''
          @ ''      <!DOCTYPE html>\<newline>''
          @ ''      <html>\<newline>''
          @ ''      <head>\<newline>''
          @ ''        <meta charset="utf-8" />\<newline>''
          @ ''        <title>MCA Meeting Recordings</title>\<newline>''
          @ ''        <style>\<newline>''
          @ ''          body { font-family: system-ui, -apple-system, BlinkMacSystemFont, "Segoe UI", sans-serif; margin: 2rem; background: #f5f5f5; }\<newline>''
          @ ''          h1 { margin-bottom: 0.5rem; }\<newline>''
          @ ''          .subtitle { margin-bottom: 1.5rem; color: #555; }\<newline>''
          @ ''          .meeting { background: #fff; border-radius: 8px; padding: 1rem 1.25rem; margin-bottom: 1rem; box-shadow: 0 1px 3px rgba(0,0,0,0.1); }\<newline>''
          @ ''          .date { font-weight: 600; margin-bottom: 0.25rem; }\<newline>''
          @ ''          .topic { color: #777; margin-bottom: 0.5rem; }\<newline>''
          @ ''          .file { margin-left: 1rem; margin-bottom: 0.25rem; }\<newline>''
          @ ''          a { text-decoration: none; color: #2563eb; }\<newline>''
          @ ''          a:hover { text-decoration: underline; }\<newline>''
          @ ''        </style>\<newline>''
          @ ''      </head>\<newline>''
          @ ''      <body>\<newline>''
          @ ''        <h1>MCA Meeting Recordings</h1>\<newline>''
          @ ''        ''
      | Rich \<Rightarrow>
          ''\<newline>''
          @ ''      <!DOCTYPE html>\<newline>''
          @ ''      <html>\<newline>''
          @ ''      <head>\<newline>''
          @ ''        <meta charset="utf-8" />\<newline>''
          @ ''        <meta name="viewport" content="width=device-width, initial-scale=1" />\<newline>''
          @ ''        <title>MCA Meeting Zoom Recordings</title>\<newline>''
          @ ''        <style>\<newline>''
          @ ''          :root {\<newline>''
          @ ''            color-scheme: light;\<newline>''
          @ ''          }\<newline>''
          @ ''          body {\<newline>''
          @ ''            font-family: system-ui, -apple-system, BlinkMacSystemFont, "Segoe UI", sans-serif;\<newline>''
          @ ''            margin: 0;\<newline>''
          @ ''            padding: 0;\<newline>''
          @ ''            background: #2a28cb;\<newline>''
          @ ''          }\<newline>''
          @ ''          .page {\<newline>''
          @ ''            max-width: 720px;\<newline>''
          @ ''            margin: 0 auto;\<newline>''
          @ ''            padding: 2rem 1.5rem;\<newline>''
          @ ''          }\<newline>''
          @ ''          h1 {\<newline>''
          @ ''            margin: 0 0 0.5rem 0;\<newline>''
          @ ''            font-size: 1.8rem;\<newline>''
          @ ''            color: #fff;\<newline>''
          @ ''          }\<newline>''
          @ ''          .subtitle {\<newline>''
          @ ''            color: #fff;\<newline>''
          @ ''            font-size: 0.95rem;\<newline>''
          @ ''          }\<newline>''
          @ ''          .meeting {\<newline>''
          @ ''            background: #ffffffc7;\<newline>''
          @ ''            border-radius: 10px;\<newline>''
          @ ''            padding: 1rem 1.25rem;\<newline>''
          @ ''            margin-bottom: 1rem;\<newline>''
          @ ''            box-shadow: 0 1px 3px rgba(0,0,0,0.1);\<newline>''
          @ ''            border: 1px solid rgb(255 255 255);\<newline>''
          @ ''          }\<newline>''
          @ ''          .date {\<newline>''
          @ ''            font-weight: 600;\<newline>''
          @ ''            margin-bottom: 0.5rem;\<newline>''
          @ ''            font-size: 1rem;\<newline>''
          @ ''          }\<newline>''
          @ ''          .file {\<newline>''
          @ ''            margin-left: 0.75rem;\<newline>''
          @ ''            margin-bottom: 0.25rem;\<newline>''
          @ ''            font-size: 0.95rem;\<newline>''
          @ ''            line-height: 1.4;\<newline>''
          @ ''            font-weight: 500;\<newline>''
          @ ''          }\<newline>''
          @ ''          a {\<newline>''
          @ ''            text-decoration: none;\<newline>''
          @ ''            color: #0a44c4;\<newline>''
          @ ''          }\<newline>''
          @ ''          a:hover {\<newline>''
          @ ''            text-decoration: underline;\<newline>''
          @ ''          }\<newline>''
          @ ''          .refresh {\<newline>''
          @ ''          text-align: right;\<newline>''
          @ ''          margin-bottom: 1.4rem;\<newline>''
          @ ''          }\<newline>''
          @ ''          .refresh a {\<newline>''
          @ ''          color: #fff;\<newline>''
          @ ''          font-size: 0.9rem;\<newline>''
          @ ''          text-decoration: underline;\<newline>''
          @ ''          }\<newline>''
          @ ''\<newline>''
          @ ''\<newline>''
          @ ''          /* Mobile tweaks */\<newline>''
          @ ''          @media (max-width: 600px) {\<newline>''
          @ ''            .page {\<newline>''
          @ ''              padding: 1.25rem 1rem;\<newline>''
          @ ''            }\<newline>''
          @ ''            h1 {\<newline>''
          @ ''              font-size: 1.4rem;\<newline>''
          @ ''            }\<newline>''
          @ ''            .subtitle {\<newline>''
          @ ''              font-size: 0.9rem;\<newline>''
          @ ''            }\<newline>''
          @ ''            .meeting {\<newline>''
          @ ''              padding: 0.85rem 0.9rem;\<newline>''
          @ ''            }\<newline>''
          @ ''            .date {\<newline>''
          @ ''              font-size: 1.1rem;\<newline>''
          @ ''            }\<newline>''
          @ ''            .file {\<newline>''
          @ ''              font-size: 1rem;\<newline>''
          @ ''            }\<newline>''
          @ ''          }\<newline>''
          @ ''        </style>\<newline>''
          @ ''      </head>\<newline>''
          @ ''      <body>\<newline>''
          @ ''        <div class="page">\<newline>''
          @ ''          <h1>MCA Meeting Zoom Recordings</h1>\<newline>''
          @ ''          '')\<close>

definition subtitle :: "string \<Rightarrow> string" where
  \<open>subtitle MEETING_ID = ''<div class="subtitle">Meeting ID: '' @ MEETING_ID @ ''</div>''\<close>

definition after_subtitle :: "variant \<Rightarrow> string" where
  \<open>after_subtitle V =
     (case V of
        Plain \<Rightarrow>
          ''\<newline>''
          @ ''    ''
      | Rich \<Rightarrow>
          ''\<newline>''
          @ ''          <div class="refresh"><a href=""><span style="font-size: 1rem;">'' @ [CHR 0xE2, CHR 0x86, CHR 0xBB] @ ''</span> Refresh</a></div>\<newline>''
          @ ''\<newline>''
          @ ''    '')\<close>

definition page_head :: "variant \<Rightarrow> string \<Rightarrow> string" where
  "page_head V MEETING_ID = page_top V @ subtitle MEETING_ID @ after_subtitle V"

text \<open>
  The other template literals, each with its substitutions as arguments, already
  converted to strings. A character outside ASCII is written as the bytes the source file
  holds for it (the bullet of the second copy, and the seven bytes that stand where the
  first copy's bullet was).
\<close>

definition no_recordings :: string where
  \<open>no_recordings = ''<p>No recordings found yet for this meeting.</p>''\<close>

definition meeting_open_plain :: "string \<Rightarrow> string \<Rightarrow> string" where
  \<open>meeting_open_plain startTime topic =
     (''<div class="meeting">\<newline>''
      @ ''          <div class="date">'')
     @ startTime
     @ (''</div>\<newline>''
        @ ''          <div class="topic">'')
     @ topic
     @ (''</div>\<newline>''
        @ ''        '')\<close>

definition meeting_open_rich :: "string \<Rightarrow> string" where
  \<open>meeting_open_rich startTime =
     (''<div class="meeting">\<newline>''
      @ ''          <div class="date">'')
     @ startTime
     @ (''</div>\<newline>''
        @ ''        '')\<close>

definition file_entry_plain :: "string \<Rightarrow> string \<Rightarrow> string \<Rightarrow> string" where
  \<open>file_entry_plain play_url type recStart =
     (''<div class="file">\<newline>''
      @ ''              '' @ [CHR 0xC3, CHR 0xA2, CHR 0xE2, CHR 0x82, CHR 0xAC, CHR 0xC2, CHR 0xA2] @ '' <a href="'')
     @ play_url
     @ (''" target="_blank" rel="noopener noreferrer">\<newline>''
        @ ''                '')
     @ type @ '' ('' @ recStart
     @ ('')\<newline>''
        @ ''              </a>\<newline>''
        @ ''            </div>'')\<close>

definition file_entry_rich :: "string \<Rightarrow> string \<Rightarrow> string" where
  \<open>file_entry_rich play_url label =
     (''<div class="file">\<newline>''
      @ ''              '' @ [CHR 0xE2, CHR 0x80, CHR 0xA2] @ '' <a href="'')
     @ play_url
     @ (''" target="_blank" rel="noopener noreferrer">\<newline>''
        @ ''                '')
     @ label
     @ (''\<newline>''
        @ ''              </a>\<newline>''
        @ ''            </div>'')\<close>

definition meeting_close :: string where
  \<open>meeting_close = ''</div>''\<close>

definition page_tail :: "variant \<Rightarrow> string" where
  \<open>page_tail V =
     (case V of
        Plain \<Rightarrow> ''</body></html>''
      | Rich \<Rightarrow>
          ''\<newline>''
          @ ''        </div>\<newline>''
          @ ''      </body>\<newline>''
          @ ''      </html>\<newline>''
          @ ''    '')\<close>

subsection \<open>Array methods\<close>

text \<open>
  \<^verbatim>\<open>v.filter(...)\<close> and \<^verbatim>\<open>v.forEach(...)\<close> need an array: on any other value the method is
  \<^verbatim>\<open>undefined\<close> and the call throws a TypeError.
\<close>

fun array_of :: "jsval \<Rightarrow> js_error + jsval list" where
  "array_of (Arr xs) = Inr xs"
| "array_of _ = Inl TypeError"

text \<open>\<^verbatim>\<open>xs.filter(p)\<close>, for a callback that may throw.\<close>

fun filter_array :: "('a \<Rightarrow> 'e + bool) \<Rightarrow> 'a list \<Rightarrow> 'e + 'a list" where
  "filter_array p [] = Inr []"
| "filter_array p (x # xs) =
     and_then (p x) (\<lambda>keep.
     and_then (filter_array p xs) (\<lambda>rest.
     Inr (if keep then x # rest else rest)))"

text \<open>\<^verbatim>\<open>xs.forEach(f)\<close>, for a callback that updates a variable (\<^verbatim>\<open>html\<close>) and may throw.\<close>

fun forEach :: "('s \<Rightarrow> 'a \<Rightarrow> 'e + 's) \<Rightarrow> 'a list \<Rightarrow> 's \<Rightarrow> 'e + 's" where
  "forEach f [] s = Inr s"
| "forEach f (x # xs) s = and_then (f s x) (forEach f xs)"

text \<open>
  \<^verbatim>\<open>xs.sort(cmp)\<close>. ECMAScript asks for a stable sort, reads a \<^verbatim>\<open>NaN\<close> from the comparator
  as \<open>0\<close>, and fixes the result whenever the comparator orders the elements
  consistently: it is then the one stable arrangement, which insertion computes. An
  array of fewer than two elements is never compared; in a longer one every element is
  compared at least once, so a comparator that throws on an element makes the sort
  throw. For a comparator that is not consistent (one that answers \<^verbatim>\<open>NaN\<close> for some pairs
  and a number for others) the standard leaves the order to the implementation. Two
  elements whose comparison gives \<^verbatim>\<open>NaN\<close> keep their order in every implementation, as they
  do here; on three or more elements \<open>sort_array\<close> shows one outcome that conforms, and
  the order Node computes may be another one. Whether the sort throws does not depend on
  the order.
\<close>

fun positive :: "jsnum \<Rightarrow> bool" where
  "positive (Fin q) = (0 < q)"
| "positive PosInf = True"
| "positive _ = False"

fun insert_sorted :: "('a \<Rightarrow> 'a \<Rightarrow> 'e + jsnum) \<Rightarrow> 'a \<Rightarrow> 'a list \<Rightarrow> 'e + 'a list" where
  "insert_sorted cmp x [] = Inr [x]"
| "insert_sorted cmp x (y # ys) =
     and_then (cmp x y) (\<lambda>v.
     if positive v then and_then (insert_sorted cmp x ys) (\<lambda>r. Inr (y # r))
     else Inr (x # y # ys))"

fun sort_array :: "('a \<Rightarrow> 'a \<Rightarrow> 'e + jsnum) \<Rightarrow> 'a list \<Rightarrow> 'e + 'a list" where
  "sort_array cmp [] = Inr []"
| "sort_array cmp (x # xs) = and_then (sort_array cmp xs) (insert_sorted cmp x)"

subsection \<open>The comparator of the second copy (lines 343 to 346)\<close>

text \<open>
  \<^verbatim>\<open>const order = { MP4: 1, M4A: 2 }\<close> is an object literal: \<^verbatim>\<open>order[k]\<close> finds the two own
  properties and, for any other key, what \<^verbatim>\<open>Object.prototype\<close> holds under that name. The
  names below are the members of \<^verbatim>\<open>Object.prototype\<close>; each is a function (or, for
  \<^verbatim>\<open>__proto__\<close>, the prototype object), so it is truthy, \<^verbatim>\<open>|| 99\<close> keeps it, and the
  subtraction converts it to \<^verbatim>\<open>NaN\<close>.
\<close>

definition object_prototype_names :: "string list" where
  "object_prototype_names =
     [''constructor'', ''hasOwnProperty'', ''isPrototypeOf'', ''propertyIsEnumerable'',
      ''toLocaleString'', ''toString'', ''valueOf'', ''__proto__'', ''__defineGetter__'',
      ''__defineSetter__'', ''__lookupGetter__'', ''__lookupSetter__'']"

text \<open>\<^verbatim>\<open>order[k] || 99\<close>, as the number the subtraction sees.\<close>

definition order_or_99 :: "string \<Rightarrow> jsnum" where
  "order_or_99 k =
     (if k = ''MP4'' then Fin 1
      else if k = ''M4A'' then Fin 2
      else if k \<in> set object_prototype_names then NaN
      else Fin 99)"

text \<open>\<^verbatim>\<open>a - b\<close> on Numbers.\<close>

fun js_minus :: "jsnum \<Rightarrow> jsnum \<Rightarrow> jsnum" where
  "js_minus (Fin a) (Fin b) = to_double (a - b)"
| "js_minus NaN _ = NaN"
| "js_minus _ NaN = NaN"
| "js_minus PosInf PosInf = NaN"
| "js_minus NegInf NegInf = NaN"
| "js_minus PosInf _ = PosInf"
| "js_minus NegInf _ = NegInf"
| "js_minus (Fin a) PosInf = NegInf"
| "js_minus (Fin a) NegInf = PosInf"

text \<open>
  \<^verbatim>\<open>(order[a.file_type] || 99) - (order[b.file_type] || 99)\<close>: the computed key is
  converted with ToString.
\<close>

definition compare_files :: "platform \<Rightarrow> jsval \<Rightarrow> jsval \<Rightarrow> js_error + jsnum" where
  "compare_files P a b =
     and_then (get_prop a ''file_type'') (\<lambda>ta.
     and_then (js_ToString (numberToString P) ta) (\<lambda>ka.
     and_then (get_prop b ''file_type'') (\<lambda>tb.
     and_then (js_ToString (numberToString P) tb) (\<lambda>kb.
     Inr (js_minus (order_or_99 ka) (order_or_99 kb))))))"

subsection \<open>Rendering\<close>

text \<open>The callback of the inner \<^verbatim>\<open>forEach\<close>, first copy (lines 118 to 128).\<close>

definition file_step_plain :: "platform \<Rightarrow> string \<Rightarrow> jsval \<Rightarrow> js_error + string" where
  "file_step_plain P html file =
     and_then (get_prop file ''play_url'') (\<lambda>play_url.
     if truthy play_url then
       and_then (get_prop file ''file_type'') (\<lambda>file_type.
       let type = or_else file_type (Str ''Recording'') in
       and_then (get_prop file ''recording_start'') (\<lambda>recording_start.
       and_then (formatDate Plain P recording_start) (\<lambda>recStart.
       and_then (js_ToString (numberToString P) play_url) (\<lambda>url.
       and_then (js_ToString (numberToString P) type) (\<lambda>type_text.
       Inr (html @ file_entry_plain url type_text recStart))))))
     else Inr html)"

text \<open>The same callback in the second copy (lines 349 to 361).\<close>

definition label_of :: "jsval \<Rightarrow> jsval" where
  "label_of file_type =
     (let label = file_type;
          label = (if label = Str ''MP4'' then Str ''VIDEO'' else label);
          label = (if label = Str ''M4A'' then Str ''AUDIO'' else label)
      in label)"

definition file_step_rich :: "platform \<Rightarrow> string \<Rightarrow> jsval \<Rightarrow> js_error + string" where
  "file_step_rich P html file =
     and_then (get_prop file ''play_url'') (\<lambda>play_url.
     if truthy play_url then
       and_then (get_prop file ''file_type'') (\<lambda>file_type.
       let label = label_of file_type in
       and_then (js_ToString (numberToString P) play_url) (\<lambda>url.
       and_then (js_ToString (numberToString P) label) (\<lambda>label_text.
       Inr (html @ file_entry_rich url label_text))))
     else Inr html)"

definition file_step :: "variant \<Rightarrow> platform \<Rightarrow> string \<Rightarrow> jsval \<Rightarrow> js_error + string" where
  "file_step V P = (case V of Plain \<Rightarrow> file_step_plain P | Rich \<Rightarrow> file_step_rich P)"

text \<open>The filter callback of the second copy (lines 338 to 340).\<close>

definition not_summary_or_chat :: "jsval \<Rightarrow> js_error + bool" where
  "not_summary_or_chat file =
     and_then (get_prop file ''file_type'') (\<lambda>file_type.
     Inr (file_type \<noteq> Str ''SUMMARY'' \<and> file_type \<noteq> Str ''CHAT''))"

text \<open>The callback of the outer \<^verbatim>\<open>forEach\<close>: lines 109 to 131, and lines 330 to 364.\<close>

definition meeting_step_plain :: "platform \<Rightarrow> string \<Rightarrow> jsval \<Rightarrow> js_error + string" where
  "meeting_step_plain P html meeting =
     and_then (get_prop meeting ''start_time'') (\<lambda>start_time.
     and_then (formatDate Plain P start_time) (\<lambda>startTime.
     and_then (get_prop meeting ''topic'') (\<lambda>t.
     let topic = or_else t (Str ''MCA Meeting'') in
     and_then (js_ToString (numberToString P) topic) (\<lambda>topic_text.
     let html = html @ meeting_open_plain startTime topic_text in
     and_then (get_prop meeting ''recording_files'') (\<lambda>recording_files.
     and_then (array_of (or_else recording_files (Arr []))) (\<lambda>files.
     and_then (forEach (file_step Plain P) files html) (\<lambda>html.
     Inr (html @ meeting_close))))))))"

definition meeting_step_rich :: "platform \<Rightarrow> string \<Rightarrow> jsval \<Rightarrow> js_error + string" where
  "meeting_step_rich P html meeting =
     and_then (get_prop meeting ''start_time'') (\<lambda>start_time.
     and_then (formatDate Rich P start_time) (\<lambda>startTime.
     let html = html @ meeting_open_rich startTime in
     and_then (get_prop meeting ''recording_files'') (\<lambda>recording_files.
     and_then (array_of (or_else recording_files (Arr []))) (\<lambda>all_files.
     and_then (filter_array not_summary_or_chat all_files) (\<lambda>files.
     and_then (sort_array (compare_files P) files) (\<lambda>files.
     and_then (forEach (file_step Rich P) files html) (\<lambda>html.
     Inr (html @ meeting_close))))))))"

definition meeting_step :: "variant \<Rightarrow> platform \<Rightarrow> string \<Rightarrow> jsval \<Rightarrow> js_error + string" where
  "meeting_step V P = (case V of Plain \<Rightarrow> meeting_step_plain P | Rich \<Rightarrow> meeting_step_rich P)"

text \<open>Step 3 of the handler, "Build HTML": lines 83 to 134, and lines 227 to 371.\<close>

definition build_html :: "variant \<Rightarrow> platform \<Rightarrow> string \<Rightarrow> jsval list \<Rightarrow> js_error + string" where
  "build_html V P MEETING_ID filtered =
     (let html = page_head V MEETING_ID in
      and_then (if length filtered = 0 then Inr (html @ no_recordings)
                else forEach (meeting_step V P) filtered html) (\<lambda>html.
      Inr (html @ page_tail V)))"

text \<open>The filter callback \<^verbatim>\<open>m => m.id === meetingIdNumber\<close>.\<close>

definition id_matches :: "jsnum \<Rightarrow> jsval \<Rightarrow> js_error + bool" where
  "id_matches meetingIdNumber m =
     and_then (get_prop m ''id'') (\<lambda>i. Inr (strict_eq_num i meetingIdNumber))"

subsection \<open>The handler\<close>

definition missing_env_response :: http_response where
  "missing_env_response =
     \<lparr>statusCode = 500, headers = [],
      body = ''Missing env vars. Set ZOOM_ACCOUNT_ID, ZOOM_CLIENT_ID, ZOOM_CLIENT_SECRET, MEETING_ID in Netlify.''\<rparr>"

definition token_failed_response :: http_response where
  "token_failed_response = \<lparr>statusCode = 500, headers = [], body = ''Failed to get Zoom token.''\<rparr>"

definition recordings_failed_response :: http_response where
  "recordings_failed_response =
     \<lparr>statusCode = 500, headers = [], body = ''Failed to fetch recordings from Zoom.''\<rparr>"

definition unexpected_response :: http_response where
  "unexpected_response =
     \<lparr>statusCode = 500, headers = [], body = ''Unexpected error loading recordings.''\<rparr>"

definition html_response :: "string \<Rightarrow> http_response" where
  "html_response html =
     \<lparr>statusCode = 200, headers = [(''Content-Type'', ''text/html; charset=utf-8'')], body = html\<rparr>"

definition token_request :: "string \<Rightarrow> string \<Rightarrow> string \<Rightarrow> request" where
  "token_request ZOOM_ACCOUNT_ID ZOOM_CLIENT_ID ZOOM_CLIENT_SECRET =
     (let basic = base64 (ZOOM_CLIENT_ID @ '':'' @ ZOOM_CLIENT_SECRET)
      in \<lparr>req_url = ''https://zoom.us/oauth/token?grant_type=account_credentials&account_id=''
                     @ ZOOM_ACCOUNT_ID,
          req_method = Some ''POST'',
          req_headers = [(''Authorization'', ''Basic '' @ basic)]\<rparr>)"

text \<open>No \<^verbatim>\<open>method\<close> is given for the second request: \<open>None\<close> is fetch's default, GET.\<close>

definition recordings_request :: "variant \<Rightarrow> string \<Rightarrow> string \<Rightarrow> request" where
  "recordings_request V userId accessToken =
     \<lparr>req_url = ''https://api.zoom.us/v2/users/'' @ encodeURIComponent userId
                  @ ''/recordings?page_size='' @ page_size V,
      req_method = None,
      req_headers = [(''Authorization'', ''Bearer '' @ accessToken)]\<rparr>"

text \<open>
  From \<^verbatim>\<open>recData\<close> to the response: lines 77 to 140, and lines 221 to 377. Nothing here
  touches the network or the console.
\<close>

definition respond :: "variant \<Rightarrow> platform \<Rightarrow> string \<Rightarrow> jsval \<Rightarrow> js_error + http_response" where
  "respond V P MEETING_ID recData =
     and_then (get_prop recData ''meetings'') (\<lambda>m.
     let meetings = or_else m (Arr []);
         meetingIdNumber = js_Number MEETING_ID in
     and_then (array_of meetings) (\<lambda>ms.
     and_then (filter_array (id_matches meetingIdNumber) ms) (\<lambda>filtered.
     and_then (build_html V P MEETING_ID filtered) (\<lambda>html.
     Inr (html_response html)))))"

text \<open>\<^verbatim>\<open>process.env.ZOOM_USER_ID || "me"\<close>.\<close>

definition user_id :: "env \<Rightarrow> string" where
  "user_id env = (case env ''ZOOM_USER_ID'' of None \<Rightarrow> ''me'' | Some u \<Rightarrow> if u = [] then ''me'' else u)"

text \<open>
  Step 2 of the \<^verbatim>\<open>try\<close> block, "Fetch recordings for your user" (lines 61 to 76, and
  lines 205 to 220), with what follows it: what it returns or throws, and its events.
\<close>

definition fetch_recordings ::
  "variant \<Rightarrow> platform \<Rightarrow> env \<Rightarrow> string \<Rightarrow> string \<Rightarrow> (js_error + http_response) \<times> event list"
where
  "fetch_recordings V P env MEETING_ID accessToken =
     (let userId = user_id env;
          recReq = recordings_request V userId accessToken in
      (case fetch P recReq of
         Inl err \<Rightarrow> (Inl err, [Fetch recReq])
       | Inr recRes \<Rightarrow>
           if \<not> ok recRes then
             (case res_text recRes of
                Inl err \<Rightarrow> (Inl err, [Fetch recReq])
              | Inr txt \<Rightarrow>
                  (Inr recordings_failed_response,
                   [Fetch recReq,
                    ConsoleError [LogStr ''Error fetching recordings:'',
                                  LogNum (status recRes), LogStr txt]]))
           else (and_then (res_json recRes) (respond V P MEETING_ID), [Fetch recReq])))"

text \<open>
  The body of the \<^verbatim>\<open>try\<close> block: the check of the environment, step 1 ("Get access
  token", lines 37 to 58, and lines 181 to 202), then the rest. A falsy environment
  variable is an absent or an empty one. The access token is converted to a string
  where the second request's header is built, before that request is sent.
\<close>

definition try_block :: "variant \<Rightarrow> platform \<Rightarrow> env \<Rightarrow> (js_error + http_response) \<times> event list" where
  "try_block V P env =
     (case (env ''ZOOM_ACCOUNT_ID'', env ''ZOOM_CLIENT_ID'', env ''ZOOM_CLIENT_SECRET'',
            env ''MEETING_ID'') of
        (Some ZOOM_ACCOUNT_ID, Some ZOOM_CLIENT_ID, Some ZOOM_CLIENT_SECRET, Some MEETING_ID) \<Rightarrow>
          if ZOOM_ACCOUNT_ID = [] \<or> ZOOM_CLIENT_ID = [] \<or> ZOOM_CLIENT_SECRET = []
             \<or> MEETING_ID = []
          then (Inr missing_env_response, [])
          else
            let tokenReq = token_request ZOOM_ACCOUNT_ID ZOOM_CLIENT_ID ZOOM_CLIENT_SECRET in
            (case fetch P tokenReq of
               Inl err \<Rightarrow> (Inl err, [Fetch tokenReq])
             | Inr tokenRes \<Rightarrow>
                 if \<not> ok tokenRes then
                   (case res_text tokenRes of
                      Inl err \<Rightarrow> (Inl err, [Fetch tokenReq])
                    | Inr txt \<Rightarrow>
                        (Inr token_failed_response,
                         [Fetch tokenReq,
                          ConsoleError [LogStr ''Error getting Zoom token:'',
                                        LogNum (status tokenRes), LogStr txt]]))
                 else
                   (case and_then (res_json tokenRes) (\<lambda>tokenData.
                         and_then (get_prop tokenData ''access_token'') (\<lambda>accessToken.
                         js_ToString (numberToString P) accessToken)) of
                      Inl err \<Rightarrow> (Inl err, [Fetch tokenReq])
                    | Inr accessToken \<Rightarrow>
                        (case fetch_recordings V P env MEETING_ID accessToken of
                           (result, events) \<Rightarrow> (result, Fetch tokenReq # events))))
      | _ \<Rightarrow> (Inr missing_env_response, []))"

text \<open>\<^verbatim>\<open>exports.handler\<close>: the \<^verbatim>\<open>try\<close> block under its \<^verbatim>\<open>catch\<close> (lines 141 to 144, 378 to 381).\<close>

definition handler :: "variant \<Rightarrow> platform \<Rightarrow> env \<Rightarrow> http_response \<times> event list" where
  "handler V P env =
     (case try_block V P env of
        (Inr res, events) \<Rightarrow> (res, events)
      | (Inl err, events) \<Rightarrow>
          (unexpected_response, events @ [ConsoleError [LogStr ''Unhandled error:'', LogErr err]]))"

section \<open>Notions the properties are stated with\<close>

text \<open>
  A meeting whose \<^verbatim>\<open>id\<close> is a Number equal to \<open>n\<close>: what \<^verbatim>\<open>m.id === meetingIdNumber\<close>
  decides, for a meeting that can be read.
\<close>

definition id_is :: "jsnum \<Rightarrow> jsval \<Rightarrow> bool" where
  "id_is n m = (case get_prop m ''id'' of Inr v \<Rightarrow> strict_eq_num v n | Inl _ \<Rightarrow> False)"

text \<open>What each meeting contributes to the page: the text its \<^verbatim>\<open>forEach\<close> iteration appends.\<close>

definition meeting_blocks :: "variant \<Rightarrow> platform \<Rightarrow> jsval list \<Rightarrow> js_error + string list" where
  "meeting_blocks V P ms = sequence (map (meeting_step V P []) ms)"

text \<open>A file with a play URL, for the callback of the inner loop.\<close>

definition has_play_url :: "jsval \<Rightarrow> bool" where
  "has_play_url file = (case get_prop file ''play_url'' of Inr u \<Rightarrow> truthy u | Inl _ \<Rightarrow> False)"

text \<open>
  The rank the comparator is meant to give a type key: 1 for \<^verbatim>\<open>MP4\<close>, 2 for \<^verbatim>\<open>M4A\<close>, 99
  for the rest.
\<close>

definition rank_of :: "string \<Rightarrow> int" where
  "rank_of k = (if k = ''MP4'' then 1 else if k = ''M4A'' then 2 else 99)"

text \<open>
  The key under which the comparator looks a file up, and a file it can rank: one whose
  \<^verbatim>\<open>file_type\<close> converts to a string that names no member of \<^verbatim>\<open>Object.prototype\<close>.
\<close>

definition type_key :: "platform \<Rightarrow> jsval \<Rightarrow> js_error + string" where
  "type_key P file = and_then (get_prop file ''file_type'') (js_ToString (numberToString P))"

definition rankable :: "platform \<Rightarrow> jsval \<Rightarrow> bool" where
  "rankable P file =
     (case type_key P file of Inl _ \<Rightarrow> False | Inr k \<Rightarrow> k \<notin> set object_prototype_names)"

definition file_rank :: "platform \<Rightarrow> jsval \<Rightarrow> int" where
  "file_rank P file = (case type_key P file of Inl _ \<Rightarrow> 99 | Inr k \<Rightarrow> rank_of k)"

text \<open>
  Where the flow throws, told from its inputs. A property read throws on \<^verbatim>\<open>null\<close> and
  \<^verbatim>\<open>undefined\<close> alone; on any other value it gives the own property or \<^verbatim>\<open>undefined\<close>.
\<close>

definition nullish :: "jsval \<Rightarrow> bool" where
  "nullish v = (v = Null \<or> v = Undefined)"

definition prop_of :: "jsval \<Rightarrow> string \<Rightarrow> jsval" where
  "prop_of v k =
     (case v of
        Obj kvs \<Rightarrow> (case map_of kvs k of None \<Rightarrow> Undefined | Some x \<Rightarrow> x)
      | _ \<Rightarrow> Undefined)"

text \<open>A value whose conversion to a string throws, and a date whose formatting throws.\<close>

definition toString_throws :: "platform \<Rightarrow> jsval \<Rightarrow> bool" where
  "toString_throws P v = isl (js_ToString (numberToString P) v)"

definition date_throws :: "variant \<Rightarrow> platform \<Rightarrow> jsval \<Rightarrow> bool" where
  "date_throws V P v = (truthy v \<and> isl (toLocaleString P v (timeZone V)))"

text \<open>
  A file on which the callback of the inner loop throws: a \<^verbatim>\<open>null\<close> entry, or a file with
  a play URL of which the URL, the type or (in the first copy) the recording start cannot
  be written into the page. A file without a play URL is skipped before anything is
  converted.
\<close>

definition file_throws :: "variant \<Rightarrow> platform \<Rightarrow> jsval \<Rightarrow> bool" where
  "file_throws V P f =
     (nullish f
      \<or> (truthy (prop_of f ''play_url'')
         \<and> (toString_throws P (prop_of f ''play_url'')
            \<or> toString_throws P (prop_of f ''file_type'')
            \<or> (V = Plain \<and> date_throws Plain P (prop_of f ''recording_start'')))))"

text \<open>\<^verbatim>\<open>meeting.recording_files || []\<close>, when it is an array.\<close>

definition listed_files :: "jsval \<Rightarrow> jsval list option" where
  "listed_files meeting =
     (case or_else (prop_of meeting ''recording_files'') (Arr []) of
        Arr fs \<Rightarrow> Some fs
      | _ \<Rightarrow> None)"

text \<open>
  A meeting on which the callback of the outer loop throws: a \<^verbatim>\<open>null\<close> entry, a start
  time that cannot be formatted, (in the first copy) a topic that cannot be converted,
  files that are no array, or a file on which the inner loop throws. In the second copy
  the files pass the filter and the sort first: the filter throws on a \<^verbatim>\<open>null\<close> entry, and
  the sort, which compares every file once two are kept, on a type that cannot be
  converted.
\<close>

definition meeting_throws :: "variant \<Rightarrow> platform \<Rightarrow> jsval \<Rightarrow> bool" where
  "meeting_throws V P m =
     (nullish m
      \<or> date_throws V P (prop_of m ''start_time'')
      \<or> (V = Plain \<and> toString_throws P (prop_of m ''topic''))
      \<or> (case listed_files m of
            None \<Rightarrow> True
          | Some fs \<Rightarrow>
              (case V of
                 Plain \<Rightarrow> (\<exists>f \<in> set fs. file_throws Plain P f)
               | Rich \<Rightarrow>
                   (let kept = filter (\<lambda>f. prop_of f ''file_type'' \<noteq> Str ''SUMMARY''
                                            \<and> prop_of f ''file_type'' \<noteq> Str ''CHAT'') fs
                    in (\<exists>f \<in> set fs. nullish f)
                       \<or> (2 \<le> length kept
                           \<and> (\<exists>f \<in> set kept. toString_throws P (prop_of f ''file_type'')))
                       \<or> (\<exists>f \<in> set kept. file_throws Rich P f)))))"

text \<open>
  A recordings body on which the rendering throws: \<^verbatim>\<open>null\<close>, a \<^verbatim>\<open>meetings\<close> that is
  truthy and no array, a \<^verbatim>\<open>null\<close> entry among the meetings, or a meeting with the
  configured id on which the outer loop throws.
\<close>

definition body_throws :: "variant \<Rightarrow> platform \<Rightarrow> string \<Rightarrow> jsval \<Rightarrow> bool" where
  "body_throws V P MEETING_ID recData =
     (nullish recData
      \<or> (case or_else (prop_of recData ''meetings'') (Arr []) of
            Arr ms \<Rightarrow>
              (\<exists>m \<in> set ms. nullish m)
              \<or> (\<exists>m \<in> set ms. strict_eq_num (prop_of m ''id'') (js_Number MEETING_ID)
                                \<and> meeting_throws V P m)
          | _ \<Rightarrow> True))"

text \<open>
  An invocation in which something is thrown or rejected: the configuration is there,
  and a request is rejected, or the text of a failed answer cannot be read, or a body is
  not JSON, or the token body is \<^verbatim>\<open>null\<close>, or the access token cannot be converted, or
  the rendering throws on the recordings body.
\<close>

definition flow_throws :: "variant \<Rightarrow> platform \<Rightarrow> env \<Rightarrow> bool" where
  "flow_throws V P env =
     (case (env ''ZOOM_ACCOUNT_ID'', env ''ZOOM_CLIENT_ID'', env ''ZOOM_CLIENT_SECRET'',
            env ''MEETING_ID'') of
        (Some a, Some c, Some s, Some mid) \<Rightarrow>
          a \<noteq> [] \<and> c \<noteq> [] \<and> s \<noteq> [] \<and> mid \<noteq> []
          \<and> (case fetch P (token_request a c s) of
                Inl _ \<Rightarrow> True
              | Inr tokenRes \<Rightarrow>
                  if \<not> ok tokenRes then isl (res_text tokenRes)
                  else
                    (case res_json tokenRes of
                       Inl _ \<Rightarrow> True
                     | Inr tokenData \<Rightarrow>
                         nullish tokenData
                         \<or> (case js_ToString (numberToString P) (prop_of tokenData ''access_token'') of
                               Inl _ \<Rightarrow> True
                             | Inr accessToken \<Rightarrow>
                                 (case fetch P (recordings_request V (user_id env) accessToken) of
                                    Inl _ \<Rightarrow> True
                                  | Inr recRes \<Rightarrow>
                                      if \<not> ok recRes then isl (res_text recRes)
                                      else
                                        (case res_json recRes of
                                           Inl _ \<Rightarrow> True
                                         | Inr recData \<Rightarrow> body_throws V P mid recData)))))
      | _ \<Rightarrow> False)"

section \<open>A platform and upstream answers for the examples\<close>

text \<open>
  The examples run the handler against a platform whose network answers are given:
  the token request (the only POST) gets \<open>tokenAnswer\<close>, the recordings request gets
  \<open>recAnswer\<close>. Its clock formats the one timestamp the examples use, as Node does for
  the two time zones; its Number::toString writes integers, the only numbers the
  examples hold.
\<close>

function digits_of :: "nat \<Rightarrow> string" where
  "digits_of n = (if n < 10 then [char_of (48 + n)] else digits_of (n div 10) @ [char_of (48 + n mod 10)])"
  by pat_completeness auto
termination
  by (relation "measure id") auto

definition example_numberToString :: "jsnum \<Rightarrow> string" where
  "example_numberToString n =
     (case n of
        NaN \<Rightarrow> ''NaN''
      | PosInf \<Rightarrow> ''Infinity''
      | NegInf \<Rightarrow> ''-Infinity''
      | Fin q \<Rightarrow> (if q < 0 then ''-'' else []) @ digits_of (nat \<lfloor>\<bar>q\<bar>\<rfloor>))"

definition example_toLocaleString :: "jsval \<Rightarrow> string \<Rightarrow> js_error + string" where
  "example_toLocaleString v tz =
     (if v = Str ''2025-12-06T23:40:00Z'' \<and> tz = ''America/Los_Angeles'' then Inr ''Dec 6, 2025, 3:40 PM''
      else if v = Str ''2025-12-06T23:40:00Z'' \<and> tz = ''America/Mexico_City'' then Inr ''Dec 6, 2025, 5:40 PM''
      else Inr ''Invalid Date'')"

definition example_platform :: "(js_error + response) \<Rightarrow> (js_error + response) \<Rightarrow> platform" where
  "example_platform tokenAnswer recAnswer =
     \<lparr>fetch = (\<lambda>req. if req_method req = Some ''POST'' then tokenAnswer else recAnswer),
      toLocaleString = example_toLocaleString,
      numberToString = example_numberToString\<rparr>"

text \<open>The environment of the examples, with the meeting id left open.\<close>

definition example_env :: "string \<Rightarrow> env" where
  "example_env MEETING_ID =
     map_of [(''ZOOM_ACCOUNT_ID'', ''acct''), (''ZOOM_CLIENT_ID'', ''client''),
             (''ZOOM_CLIENT_SECRET'', ''secret''), (''MEETING_ID'', MEETING_ID)]"

text \<open>A token answer \<^verbatim>\<open>200 {"access_token":"tok"}\<close>, and a \<^verbatim>\<open>401\<close> with a readable body.\<close>

definition token_ok :: "js_error + response" where
  \<open>token_ok =
     Inr \<lparr>status = 200, res_text = Inr ''{"access_token":"tok"}'',
          res_json = Inr (Obj [(''access_token'', Str ''tok'')])\<rparr>\<close>

definition token_401 :: "js_error + response" where
  \<open>token_401 =
     Inr \<lparr>status = 401, res_text = Inr ''{"reason":"Invalid client_id or client_secret"}'',
          res_json = Inr (Obj [(''reason'', Str ''Invalid client_id or client_secret'')])\<rparr>\<close>

text \<open>A \<^verbatim>\<open>401\<close> whose body cannot be read: the connection breaks after the status line.\<close>

definition token_401_unreadable :: "js_error + response" where
  "token_401_unreadable =
     Inr \<lparr>status = 401, res_text = Inl (NetworkError ''terminated''),
          res_json = Inl (NetworkError ''terminated'')\<rparr>"

text \<open>A token request that is rejected: no connection.\<close>

definition token_rejects :: "js_error + response" where
  "token_rejects = Inl (NetworkError ''fetch failed'')"

text \<open>
  A recordings answer \<^verbatim>\<open>200\<close> with the parsed body \<open>v\<close>. The examples leave its text out
  (the handler reads the text of a failed response only).
\<close>

definition rec_ok :: "jsval \<Rightarrow> js_error + response" where
  "rec_ok v = Inr \<lparr>status = 200, res_text = Inr [], res_json = Inr v\<rparr>"

text \<open>A recordings answer \<^verbatim>\<open>200\<close> whose body is not JSON.\<close>

definition rec_not_json :: "js_error + response" where
  \<open>rec_not_json = Inr \<lparr>status = 200, res_text = Inr ''<html>Bad gateway</html>'', res_json = Inl SyntaxError\<rparr>\<close>

text \<open>A recordings answer \<^verbatim>\<open>200 null\<close>: JSON, but not an object.\<close>

definition rec_null :: "js_error + response" where
  "rec_null = Inr \<lparr>status = 200, res_text = Inr ''null'', res_json = Inr Null\<rparr>"

text \<open>A recordings answer \<^verbatim>\<open>503\<close> with a readable body.\<close>

definition rec_503 :: "js_error + response" where
  "rec_503 = Inr \<lparr>status = 503, res_text = Inr ''Service Unavailable'', res_json = Inl SyntaxError\<rparr>"

text \<open>A meeting with an id and files, and a file with a type and a play URL.\<close>

definition example_meeting :: "rat \<Rightarrow> jsval list \<Rightarrow> jsval" where
  "example_meeting i files =
     Obj [(''id'', Num (Fin i)), (''topic'', Str ''Monthly meeting''),
          (''start_time'', Str ''2025-12-06T23:40:00Z''), (''recording_files'', Arr files)]"

definition recording_file :: "string \<Rightarrow> string \<Rightarrow> jsval" where
  "recording_file file_type play_url =
     Obj [(''file_type'', Str file_type), (''play_url'', Str play_url),
          (''recording_start'', Str ''2025-12-06T23:40:00Z'')]"

text \<open>Three meetings with the ids 111, 222 and 333, a video file each, and the body that lists them.\<close>

definition example_meetings :: "jsval list" where
  "example_meetings =
     [example_meeting 111 [recording_file ''MP4'' ''https://zoom.us/rec/play/a''],
      example_meeting 222 [recording_file ''MP4'' ''https://zoom.us/rec/play/b''],
      example_meeting 333 [recording_file ''MP4'' ''https://zoom.us/rec/play/c'']]"

definition three_meetings :: jsval where
  "three_meetings = Obj [(''meetings'', Arr example_meetings)]"

text \<open>Two recordings of one recurring meeting: the upstream lists both under the id 222.\<close>

definition recurring_meetings :: jsval where
  "recurring_meetings =
     Obj [(''meetings'',
           Arr [example_meeting 222 [recording_file ''MP4'' ''https://zoom.us/rec/play/b''],
                example_meeting 222 [recording_file ''MP4'' ''https://zoom.us/rec/play/d'']])]"

text \<open>The block of an example meeting with one video file, as each copy renders it.\<close>

definition video_block :: "variant \<Rightarrow> string \<Rightarrow> string" where
  "video_block V play_url =
     (case V of
        Plain \<Rightarrow> meeting_open_plain ''Dec 6, 2025, 3:40 PM'' ''Monthly meeting''
                 @ file_entry_plain play_url ''MP4'' ''Dec 6, 2025, 3:40 PM'' @ meeting_close
      | Rich \<Rightarrow> meeting_open_rich ''Dec 6, 2025, 5:40 PM''
                 @ file_entry_rich play_url ''VIDEO'' @ meeting_close)"

text \<open>
  The files of the specification's example: a chat file, an audio file, a summary and a
  video file, the two media files with play URLs.
\<close>

definition spec_example_files :: "jsval list" where
  "spec_example_files =
     [Obj [(''file_type'', Str ''CHAT'')],
      Obj [(''file_type'', Str ''M4A''), (''play_url'', Str ''u1'')],
      Obj [(''file_type'', Str ''SUMMARY'')],
      Obj [(''file_type'', Str ''MP4''), (''play_url'', Str ''u2'')]]"

text \<open>Two files with play URLs: one whose type is the string \<^verbatim>\<open>constructor\<close>, then a video.\<close>

definition inherited_name_files :: "jsval list" where
  "inherited_name_files =
     [Obj [(''file_type'', Str ''constructor''), (''play_url'', Str ''u1'')],
      Obj [(''file_type'', Str ''MP4''), (''play_url'', Str ''u2'')]]"

text \<open>The recordings body with meeting 222 holding those two files.\<close>

definition inherited_name_meetings :: jsval where
  "inherited_name_meetings = Obj [(''meetings'', Arr [example_meeting 222 inherited_name_files])]"

text \<open>A recordings body whose meeting 222 lists a video file and then \<^verbatim>\<open>null\<close>.\<close>

definition null_file_meetings :: jsval where
  "null_file_meetings =
     Obj [(''meetings'',
           Arr [example_meeting 222 [recording_file ''MP4'' ''https://zoom.us/rec/play/b'', Null]])]"

section \<open>Properties\<close>

subsection \<open>Numbers\<close>

text \<open>An integer below \<open>2 ^ 53\<close> is a double: rounding leaves it as it is.\<close>

lemma round_half_even_of_int [simp]: "round_half_even (of_int j) = j"
  by (simp add: round_half_even_def)

lemma floor_log2_of_int_bounds:
  assumes "0 < n" "n < 2 ^ 53"
  shows "- 1 \<le> floor_log2 (of_int n)" "floor_log2 (of_int n) \<le> 52"
proof -
  have b1: "bitlen 1 = 1" by (simp add: bitlen_alt_def)
  have "1 \<le> bitlen n" using assms(1) bitlen_ge_iff_power [of 1 n] by simp
  moreover have "bitlen n \<le> 53" using assms(2) bitlen_le_iff_power [of n 53] by simp
  ultimately show "- 1 \<le> floor_log2 (of_int n)" "floor_log2 (of_int n) \<le> 52"
    by (simp_all add: floor_log2_def quotient_of_int b1 Let_def)
qed

lemma to_double_of_int:
  assumes "0 < n" "n < 2 ^ 53"
  shows "to_double (of_int n) = Fin (of_int n)"
proof -
  define e where "e = floor_log2 (of_int n) - 52"
  have e: "- 53 \<le> e" "e \<le> 0"
    using floor_log2_of_int_bounds [OF assms] by (simp_all add: e_def)
  have p: "pow2 e = 1 / 2 ^ nat (- e)"
    using e by (cases "e = 0") (simp_all add: pow2_def)
  have m: "rat_of_int n / pow2 e = of_int (n * 2 ^ nat (- e))"
    by (simp add: p)
  have r: "rat_of_int (n * 2 ^ nat (- e)) * pow2 e = of_int n"
    by (simp add: p)
  have "rat_of_int n < 2 ^ 53" using assms(2)
    by (metis of_int_less_numeral_power_cancel_iff)
  also have "\<dots> \<le> pow2 1024" by (simp add: pow2_def)
  finally have big: "\<not> pow2 1024 \<le> rat_of_int n" by simp
  have mx: "max e (- 1074) = e" using e by simp
  show ?thesis
    using assms(1) big
    by (simp add: to_double_def Let_def e_def [symmetric] mx m r del: of_int_mult of_int_power)
qed

lemma to_double_of_neg_int:
  assumes "0 < n" "n < 2 ^ 53"
  shows "to_double (- of_int n) = Fin (- of_int n)"
proof -
  define e where "e = floor_log2 (of_int n) - 52"
  have e: "- 53 \<le> e" "e \<le> 0"
    using floor_log2_of_int_bounds [OF assms] by (simp_all add: e_def)
  have p: "pow2 e = 1 / 2 ^ nat (- e)"
    using e by (cases "e = 0") (simp_all add: pow2_def)
  have m: "rat_of_int n / pow2 e = of_int (n * 2 ^ nat (- e))"
    by (simp add: p)
  have r: "rat_of_int (n * 2 ^ nat (- e)) * pow2 e = of_int n"
    by (simp add: p)
  have "rat_of_int n < 2 ^ 53" using assms(2)
    by (metis of_int_less_numeral_power_cancel_iff)
  also have "\<dots> \<le> pow2 1024" by (simp add: pow2_def)
  finally have big: "\<not> pow2 1024 \<le> rat_of_int n" by simp
  have mx: "max e (- 1074) = e" using e by simp
  have a: "\<bar>- rat_of_int n\<bar> = of_int n" using assms(1) by simp
  show ?thesis
    using assms(1) big
    by (simp add: to_double_def Let_def a e_def [symmetric] mx m r del: of_int_mult of_int_power)
qed

lemma to_double_int:
  assumes "\<bar>n\<bar> < 2 ^ 53"
  shows "to_double (of_int n) = Fin (of_int n)"
proof -
  consider "n = 0" | "0 < n" | "n < 0" by linarith
  then show ?thesis
  proof cases
    case 1
    then show ?thesis by (simp add: to_double_def)
  next
    case 2
    then show ?thesis using assms to_double_of_int [of n] by simp
  next
    case 3
    then show ?thesis using assms to_double_of_neg_int [of "- n"] by simp
  qed
qed

lemma positive_js_minus_int:
  assumes "\<bar>a - b\<bar> < 2 ^ 53"
  shows "positive (js_minus (Fin (of_int a)) (Fin (of_int b))) \<longleftrightarrow> b < a"
  using to_double_int [OF assms] by simp

lemma js_Number_222: "js_Number ''222'' = Fin 222"
  using to_double_of_int [of 222]
  by (simp add: js_Number_def parse_nondecimal_def parse_decimal_def parse_unsigned_decimal_def
        parse_exponent_def is_digit_def digits_val_def digit_of_def pow10_def)

lemma js_Number_999: "js_Number ''999'' = Fin 999"
  using to_double_of_int [of 999]
  by (simp add: js_Number_def parse_nondecimal_def parse_decimal_def parse_unsigned_decimal_def
        parse_exponent_def is_digit_def digits_val_def digit_of_def pow10_def)

lemma js_Number_123: "js_Number ''123'' = Fin 123"
  using to_double_of_int [of 123]
  by (simp add: js_Number_def parse_nondecimal_def parse_decimal_def parse_unsigned_decimal_def
        parse_exponent_def is_digit_def digits_val_def digit_of_def pow10_def)

lemma js_Number_abc: "js_Number ''abc'' = NaN"
  by (simp add: js_Number_def parse_nondecimal_def parse_decimal_def parse_unsigned_decimal_def
        parse_exponent_def is_digit_def digits_val_def digit_of_def pow10_def)

lemmas js_Number_examples = js_Number_222 js_Number_999 js_Number_123 js_Number_abc

text \<open>No value is strictly equal to \<^verbatim>\<open>NaN\<close>.\<close>

lemma num_eq_NaN [simp]: "num_eq a NaN = False"
  by (cases a) simp_all

lemma strict_eq_num_NaN [simp]: "strict_eq_num v NaN = False"
  by (cases v) simp_all

subsection \<open>Sequencing and the loops\<close>

lemma and_then_Inl [simp]: "and_then (Inl e) f = Inl e"
  by (simp add: and_then_def)

lemma and_then_Inr [simp]: "and_then (Inr x) f = f x"
  by (simp add: and_then_def)

lemma and_then_eq_Inr:
  "and_then m f = Inr y \<longleftrightarrow> (\<exists>x. m = Inr x \<and> f x = Inr y)"
  by (cases m) simp_all

lemma and_then_eq_Inl:
  "and_then m f = Inl e \<longleftrightarrow> m = Inl e \<or> (\<exists>x. m = Inr x \<and> f x = Inl e)"
  by (cases m) simp_all

lemma get_prop_throws: "get_prop v k = Inl e \<longleftrightarrow> (v = Null \<or> v = Undefined) \<and> e = TypeError"
  by (cases v) (auto split: option.splits)

lemma sequence_length: "sequence ms = Inr xs \<Longrightarrow> length xs = length ms"
  by (induction ms arbitrary: xs) (auto split: sum.splits)

lemma sequence_list_all2:
  "sequence (map f xs) = Inr bs \<Longrightarrow> list_all2 (\<lambda>x b. f x = Inr b) xs bs"
  by (induction xs arbitrary: bs) (auto split: sum.splits)

text \<open>
  A \<^verbatim>\<open>forEach\<close> whose callback only appends to \<^verbatim>\<open>html\<close> appends the concatenation of what
  each element contributes, or throws where the first element throws.
\<close>

lemma sequence_append_steps:
  assumes "\<And>s x. f s x = and_then (f [] x) (\<lambda>b. Inr (s @ b))"
  shows "forEach f xs s = and_then (sequence (map (f []) xs)) (\<lambda>bs. Inr (s @ concat bs))"
proof (induction xs arbitrary: s)
  case Nil
  show ?case by simp
next
  case (Cons x xs)
  show ?case
  proof (cases "f [] x")
    case (Inl e)
    then show ?thesis using assms [of s x] by simp
  next
    case (Inr b)
    then have "f s x = Inr (s @ b)" using assms [of s x] by simp
    then show ?thesis using Inr Cons.IH [of "s @ b"]
      by (cases "sequence (map (f []) xs)") simp_all
  qed
qed

lemma file_step_appends:
  "file_step V P html file = and_then (file_step V P [] file) (\<lambda>b. Inr (html @ b))"
  by (cases V)
     (auto simp: file_step_def file_step_plain_def file_step_rich_def and_then_def Let_def
           split: sum.splits)

lemma meeting_step_appends:
  "meeting_step V P html m = and_then (meeting_step V P [] m) (\<lambda>b. Inr (html @ b))"
  by (cases V)
     (auto simp: meeting_step_def meeting_step_plain_def meeting_step_rich_def Let_def
                 sequence_append_steps [where f = "file_step V P" for V, OF file_step_appends]
                 and_then_def
           split: sum.splits)

text \<open>
  What one iteration of the outer loop appends is a meeting block: the opening tag of the
  \<^verbatim>\<open>meeting\<close> element, the date line with the meeting's formatted start time, the rest,
  and the closing tag.
\<close>

lemma meeting_step_block:
  assumes "meeting_step V P [] m = Inr b"
  shows \<open>\<exists>start_time startTime inner.
            get_prop m ''start_time'' = Inr start_time
          \<and> formatDate V P start_time = Inr startTime
          \<and> b = ''<div class="meeting">\<newline>          <div class="date">'' @ startTime @ ''</div>''
                  @ inner @ ''</div>''\<close>
proof (cases V)
  case Plain
  from assms obtain start_time startTime topic_text files bs where
    "get_prop m ''start_time'' = Inr start_time" "formatDate V P start_time = Inr startTime"
    "b = meeting_open_plain startTime topic_text @ concat bs @ meeting_close"
    unfolding Plain
    by (auto simp: meeting_step_def meeting_step_plain_def Let_def and_then_eq_Inr
          sequence_append_steps [where f = "file_step Plain P", OF file_step_appends])
  then show ?thesis
    by (intro exI [where x = start_time] exI [where x = startTime]
          exI [where x = \<open>''\<newline>          <div class="topic">'' @ topic_text
                           @ ''</div>\<newline>        '' @ concat bs\<close>])
       (simp add: meeting_open_plain_def meeting_close_def)
next
  case Rich
  from assms obtain start_time startTime files bs where
    "get_prop m ''start_time'' = Inr start_time" "formatDate V P start_time = Inr startTime"
    "b = meeting_open_rich startTime @ concat bs @ meeting_close"
    unfolding Rich
    by (auto simp: meeting_step_def meeting_step_rich_def Let_def and_then_eq_Inr
          sequence_append_steps [where f = "file_step Rich P", OF file_step_appends])
  then show ?thesis
    by (intro exI [where x = start_time] exI [where x = startTime]
          exI [where x = "''\<newline>        '' @ concat bs"])
       (simp add: meeting_open_rich_def meeting_close_def)
qed

subsection \<open>The \<^verbatim>\<open>try\<close> block, case by case\<close>

lemma try_block_configured:
  assumes "env ''ZOOM_ACCOUNT_ID'' = Some a" "env ''ZOOM_CLIENT_ID'' = Some c"
    "env ''ZOOM_CLIENT_SECRET'' = Some s" "env ''MEETING_ID'' = Some mid"
    "a \<noteq> []" "c \<noteq> []" "s \<noteq> []" "mid \<noteq> []"
  shows "try_block V P env =
    (case fetch P (token_request a c s) of
       Inl err \<Rightarrow> (Inl err, [Fetch (token_request a c s)])
     | Inr tokenRes \<Rightarrow>
         if \<not> ok tokenRes then
           (case res_text tokenRes of
              Inl err \<Rightarrow> (Inl err, [Fetch (token_request a c s)])
            | Inr txt \<Rightarrow>
                (Inr token_failed_response,
                 [Fetch (token_request a c s),
                  ConsoleError [LogStr ''Error getting Zoom token:'',
                                LogNum (status tokenRes), LogStr txt]]))
         else
           (case and_then (res_json tokenRes) (\<lambda>tokenData.
                 and_then (get_prop tokenData ''access_token'') (\<lambda>accessToken.
                 js_ToString (numberToString P) accessToken)) of
              Inl err \<Rightarrow> (Inl err, [Fetch (token_request a c s)])
            | Inr accessToken \<Rightarrow>
                (fst (fetch_recordings V P env mid accessToken),
                 Fetch (token_request a c s) # snd (fetch_recordings V P env mid accessToken))))"
  using assms by (simp add: try_block_def Let_def case_prod_unfold split: sum.splits)

lemma try_block_missing:
  assumes "k \<in> {''ZOOM_ACCOUNT_ID'', ''ZOOM_CLIENT_ID'', ''ZOOM_CLIENT_SECRET'', ''MEETING_ID''}"
    and "env k = None \<or> env k = Some []"
  shows "try_block V P env = (Inr missing_env_response, [])"
  using assms by (auto simp: try_block_def split: option.splits)

text \<open>The four variables are there and not empty whenever the handler gets past its first check.\<close>

lemma try_block_cases:
  obtains (missing) "try_block V P env = (Inr missing_env_response, [])"
  | (configured) a c s mid where "env ''ZOOM_ACCOUNT_ID'' = Some a" "env ''ZOOM_CLIENT_ID'' = Some c"
      "env ''ZOOM_CLIENT_SECRET'' = Some s" "env ''MEETING_ID'' = Some mid"
      "a \<noteq> []" "c \<noteq> []" "s \<noteq> []" "mid \<noteq> []"
proof (cases "env ''ZOOM_ACCOUNT_ID''")
  case None
  then show ?thesis by (intro missing) (simp add: try_block_def)
next
  case a: (Some a)
  show ?thesis
  proof (cases "env ''ZOOM_CLIENT_ID''")
    case None
    then show ?thesis using a by (intro missing) (simp add: try_block_def)
  next
    case c: (Some c)
    show ?thesis
    proof (cases "env ''ZOOM_CLIENT_SECRET''")
      case None
      then show ?thesis using a c by (intro missing) (simp add: try_block_def)
    next
      case s: (Some s)
      show ?thesis
      proof (cases "env ''MEETING_ID''")
        case None
        then show ?thesis using a c s by (intro missing) (simp add: try_block_def)
      next
        case mid: (Some mid)
        show ?thesis
        proof (cases "a = [] \<or> c = [] \<or> s = [] \<or> mid = []")
          case True
          then show ?thesis using a c s mid by (intro missing) (simp add: try_block_def)
        next
          case False
          then show ?thesis using a c s mid by (intro configured [of a c s mid]) simp_all
        qed
      qed
    qed
  qed
qed

subsection \<open>What the handler returns\<close>

lemma handler_of_try_block:
  "handler V P env =
     (case fst (try_block V P env) of
        Inr res \<Rightarrow> (res, snd (try_block V P env))
      | Inl err \<Rightarrow> (unexpected_response,
                    snd (try_block V P env) @ [ConsoleError [LogStr ''Unhandled error:'', LogErr err]]))"
  by (simp add: handler_def split: prod.splits sum.splits)

lemma fetch_recordings_returns:
  assumes "fst (fetch_recordings V P env mid accessToken) = Inr res"
  shows "res = recordings_failed_response
     \<or> (\<exists>recRes recData. fetch P (recordings_request V (user_id env) accessToken) = Inr recRes
           \<and> ok recRes \<and> res_json recRes = Inr recData \<and> respond V P mid recData = Inr res)"
  using assms
  by (auto simp: fetch_recordings_def Let_def and_then_eq_Inr split: sum.splits if_splits)

lemma try_block_returns:
  assumes "fst (try_block V P env) = Inr res"
  shows "res = missing_env_response \<or> res = token_failed_response
         \<or> res = recordings_failed_response
         \<or> (\<exists>mid accessToken recRes recData. env ''MEETING_ID'' = Some mid \<and> mid \<noteq> []
               \<and> fetch P (recordings_request V (user_id env) accessToken) = Inr recRes
               \<and> ok recRes \<and> res_json recRes = Inr recData
               \<and> respond V P mid recData = Inr res)"
proof (cases rule: try_block_cases [of V P env])
  case missing
  then show ?thesis using assms by simp
next
  case (configured a c s mid)
  have "res = token_failed_response
        \<or> (\<exists>accessToken. fst (fetch_recordings V P env mid accessToken) = Inr res)"
    using assms
    unfolding try_block_configured [OF configured]
    by (auto split: sum.splits if_splits)
  then show ?thesis using fetch_recordings_returns [of V P env mid _ res] configured(4,8) by blast
qed

text \<open>A 200 response is the page that \<open>respond\<close> builds from the recordings answer.\<close>

lemma handler_200:
  assumes "statusCode (fst (handler V P env)) = 200"
  shows "\<exists>mid accessToken recRes recData. env ''MEETING_ID'' = Some mid \<and> mid \<noteq> []
               \<and> fetch P (recordings_request V (user_id env) accessToken) = Inr recRes
               \<and> ok recRes \<and> res_json recRes = Inr recData
               \<and> respond V P mid recData = Inr (fst (handler V P env))"
proof (cases "fst (try_block V P env)")
  case (Inl err)
  then show ?thesis using assms by (simp add: handler_of_try_block unexpected_response_def)
next
  case (Inr res)
  then have r: "fst (handler V P env) = res" by (simp add: handler_of_try_block)
  then have "res \<noteq> missing_env_response" "res \<noteq> token_failed_response"
      "res \<noteq> recordings_failed_response"
    using assms
    by (auto simp: missing_env_response_def token_failed_response_def
          recordings_failed_response_def)
  then show ?thesis using try_block_returns [OF Inr] r by simp
qed

lemma id_matches_id_is:
  "id_matches n m = (if m = Null \<or> m = Undefined then Inl TypeError else Inr (id_is n m))"
  by (cases m) (simp_all add: id_matches_def id_is_def split: option.splits)

lemma filter_array_id_matches:
  "filter_array (id_matches n) ms =
     (if Null \<in> set ms \<or> Undefined \<in> set ms then Inl TypeError else Inr (filter (id_is n) ms))"
  by (induction ms) (auto simp: id_matches_id_is)


lemma id_is_NaN: "id_is NaN m = False"
  by (simp add: id_is_def split: sum.splits)

lemma build_html_blocks:
  "build_html V P mid filtered =
     (if filtered = [] then Inr (page_head V mid @ no_recordings @ page_tail V)
      else and_then (meeting_blocks V P filtered)
             (\<lambda>blocks. Inr (page_head V mid @ concat blocks @ page_tail V)))"
  using sequence_append_steps [where f = "meeting_step V P", OF meeting_step_appends,
      of filtered "page_head V mid"]
  by (cases "sequence (map (meeting_step V P []) filtered)")
     (simp_all add: build_html_def meeting_blocks_def Let_def)

lemma respond_page:
  assumes "respond V P mid recData = Inr res"
  shows "\<exists>inner. res = html_response (page_head V mid @ inner @ page_tail V)"
  using assms
  by (auto simp: respond_def Let_def and_then_eq_Inr build_html_blocks split: if_splits)

text \<open>The page when no meeting is kept: the head, the message, the tail.\<close>

lemma respond_no_match:
  assumes "get_prop recData ''meetings'' = Inr m" "array_of (or_else m (Arr [])) = Inr ms"
    "Null \<notin> set ms" "Undefined \<notin> set ms" "filter (id_is (js_Number mid)) ms = []"
  shows "respond V P mid recData = Inr (html_response (page_head V mid @ no_recordings @ page_tail V))"
  using assms by (simp add: respond_def Let_def filter_array_id_matches build_html_blocks)

text \<open>A response is one of the four fixed errors or a whole page.\<close>

lemma handler_response_cases:
  "fst (handler V P env) \<in> {missing_env_response, token_failed_response,
                             recordings_failed_response, unexpected_response}
   \<or> (\<exists>MEETING_ID inner. env ''MEETING_ID'' = Some MEETING_ID
         \<and> fst (handler V P env) = html_response (page_head V MEETING_ID @ inner @ page_tail V))"
proof (cases "fst (try_block V P env)")
  case (Inl err)
  then show ?thesis by (simp add: handler_of_try_block)
next
  case (Inr res)
  then have "fst (handler V P env) = res" by (simp add: handler_of_try_block)
  then show ?thesis using try_block_returns [OF Inr] respond_page [of V P _ _ res] by blast
qed

subsection \<open>The examples, evaluated\<close>

lemma example_env_simps:
  "example_env mid ''ZOOM_ACCOUNT_ID'' = Some ''acct''"
  "example_env mid ''ZOOM_CLIENT_ID'' = Some ''client''"
  "example_env mid ''ZOOM_CLIENT_SECRET'' = Some ''secret''"
  "example_env mid ''MEETING_ID'' = Some mid"
  "example_env mid ''ZOOM_USER_ID'' = None"
  "user_id (example_env mid) = ''me''"
  by (simp_all add: example_env_def user_id_def)

lemma example_platform_fetch:
  "fetch (example_platform t r) (token_request a c s) = t"
  "fetch (example_platform t r) (recordings_request V u k) = r"
  by (simp_all add: example_platform_def token_request_def recordings_request_def Let_def)

lemma example_platform_sel:
  "numberToString (example_platform t r) = example_numberToString"
  "toLocaleString (example_platform t r) = example_toLocaleString"
  by (simp_all add: example_platform_def)

lemma example_handler:
  assumes "mid \<noteq> []"
  shows "handler V (example_platform token_ok (Inr \<lparr>status = 200, res_text = t, res_json = j\<rparr>)) (example_env mid) =
    (case and_then j (respond V (example_platform token_ok (Inr \<lparr>status = 200, res_text = t, res_json = j\<rparr>)) mid) of
       Inr res \<Rightarrow> (res, [Fetch (token_request ''acct'' ''client'' ''secret''),
                        Fetch (recordings_request V ''me'' ''tok'')])
     | Inl err \<Rightarrow> (unexpected_response,
                    [Fetch (token_request ''acct'' ''client'' ''secret''),
                     Fetch (recordings_request V ''me'' ''tok''),
                     ConsoleError [LogStr ''Unhandled error:'', LogErr err]]))"
  using assms
  by (simp add: handler_def
        try_block_configured [of "example_env mid" "''acct''" "''client''" "''secret''" mid]
        example_env_simps example_platform_fetch example_platform_sel token_ok_def ok_def
        fetch_recordings_def Let_def
      split: sum.splits)

lemma id_is_example_meeting [simp]: "id_is n (example_meeting i files) = num_eq (Fin i) n"
  by (simp add: id_is_def example_meeting_def)

lemma example_meeting_not_null [simp]:
  "example_meeting i files \<noteq> Null" "example_meeting i files \<noteq> Undefined"
  "Null \<noteq> example_meeting i files" "Undefined \<noteq> example_meeting i files"
  by (simp_all add: example_meeting_def)

lemma example_formatDate:
  "formatDate Plain (example_platform t r) (Str ''2025-12-06T23:40:00Z'') = Inr ''Dec 6, 2025, 3:40 PM''"
  "formatDate Rich (example_platform t r) (Str ''2025-12-06T23:40:00Z'') = Inr ''Dec 6, 2025, 5:40 PM''"
  by (simp_all add: formatDate_def example_platform_sel example_toLocaleString_def timeZone_def)

lemma example_file_step:
  "u \<noteq> [] \<Longrightarrow> file_step Plain (example_platform t r) html (recording_file ''MP4'' u)
     = Inr (html @ file_entry_plain u ''MP4'' ''Dec 6, 2025, 3:40 PM'')"
  "u \<noteq> [] \<Longrightarrow> file_step Rich (example_platform t r) html (recording_file ''MP4'' u)
     = Inr (html @ file_entry_rich u ''VIDEO'')"
  by (simp_all add: file_step_def file_step_plain_def file_step_rich_def recording_file_def
        or_else_def label_of_def example_formatDate example_platform_sel)

lemma example_meeting_step:
  assumes "u \<noteq> []"
  shows "meeting_step V (example_platform t r) html (example_meeting i [recording_file ''MP4'' u])
     = Inr (html @ video_block V u)"
proof (cases V)
  case Plain
  then show ?thesis using assms
    by (simp add: meeting_step_def meeting_step_plain_def example_meeting_def or_else_def
          example_formatDate example_platform_sel example_file_step video_block_def)
next
  case Rich
  have "not_summary_or_chat (recording_file ''MP4'' u) = Inr True"
    by (simp add: not_summary_or_chat_def recording_file_def)
  then show ?thesis using assms Rich
    by (simp add: meeting_step_def meeting_step_rich_def example_meeting_def or_else_def
          example_formatDate example_platform_sel example_file_step video_block_def)
qed

lemma example_respond_222:
  "respond V (example_platform t r) ''222'' three_meetings
     = Inr (html_response (page_head V ''222'' @ video_block V ''https://zoom.us/rec/play/b'' @ page_tail V))"
  by (simp add: respond_def three_meetings_def example_meetings_def or_else_def
        filter_array_id_matches js_Number_examples build_html_blocks meeting_blocks_def
        example_meeting_step)

lemma example_respond_recurring:
  "respond V (example_platform t r) ''222'' recurring_meetings
     = Inr (html_response (page_head V ''222'' @ video_block V ''https://zoom.us/rec/play/b''
                             @ video_block V ''https://zoom.us/rec/play/d'' @ page_tail V))"
  by (simp add: respond_def recurring_meetings_def or_else_def
        filter_array_id_matches js_Number_examples build_html_blocks meeting_blocks_def
        example_meeting_step)

subsection \<open>Missing configuration\<close>

text \<open>
  Claim C1. If one of \<^verbatim>\<open>ZOOM_ACCOUNT_ID\<close>, \<^verbatim>\<open>ZOOM_CLIENT_ID\<close>, \<^verbatim>\<open>ZOOM_CLIENT_SECRET\<close>,
  \<^verbatim>\<open>MEETING_ID\<close> is absent or the empty string, either handler returns status 500 with the
  missing-variables message, whichever variable it is and whatever the others hold, and
  its list of events is empty: no request is sent (neither the token POST nor the
  recordings GET) and nothing is logged.
\<close>

theorem missing_env_vars:
  assumes "k \<in> {''ZOOM_ACCOUNT_ID'', ''ZOOM_CLIENT_ID'', ''ZOOM_CLIENT_SECRET'', ''MEETING_ID''}"
    and "env k = None \<or> env k = Some []"
  shows "handler V P env =
    (\<lparr>statusCode = 500, headers = [],
      body = ''Missing env vars. Set ZOOM_ACCOUNT_ID, ZOOM_CLIENT_ID, ZOOM_CLIENT_SECRET, MEETING_ID in Netlify.''\<rparr>, [])"
  using try_block_missing [of k env V P] assms by (simp add: handler_def missing_env_response_def)

theorem missing_env_vars_witness:
  "example_env [] ''MEETING_ID'' = Some []
   \<and> handler Plain (example_platform token_ok (rec_ok three_meetings)) (example_env []) =
    (\<lparr>statusCode = 500, headers = [],
      body = ''Missing env vars. Set ZOOM_ACCOUNT_ID, ZOOM_CLIENT_ID, ZOOM_CLIENT_SECRET, MEETING_ID in Netlify.''\<rparr>, [])
   \<and> ((example_env ''222'')(''ZOOM_CLIENT_ID'' := None)) ''ZOOM_CLIENT_ID'' = None
   \<and> handler Rich (example_platform token_ok (rec_ok three_meetings)) ((example_env ''222'')(''ZOOM_CLIENT_ID'' := None)) =
    (\<lparr>statusCode = 500, headers = [],
      body = ''Missing env vars. Set ZOOM_ACCOUNT_ID, ZOOM_CLIENT_ID, ZOOM_CLIENT_SECRET, MEETING_ID in Netlify.''\<rparr>, [])"
  using missing_env_vars [of "''MEETING_ID''" "example_env []" Plain "example_platform token_ok (rec_ok three_meetings)"]
   missing_env_vars [of "''ZOOM_CLIENT_ID''" "(example_env ''222'')(''ZOOM_CLIENT_ID'' := None)" Rich "example_platform token_ok (rec_ok three_meetings)"]
  by (simp add: example_env_def)

subsection \<open>A token answer that is not 2xx\<close>

text \<open>
  Claim C2, amended. With the configuration present and a token answer whose status is
  not 2xx, the handler reads the answer's text for the log. If the text can be read, the
  handler returns status 500 with the token-failure message; if reading it rejects, the
  rejection reaches the \<^verbatim>\<open>catch\<close> and the handler returns status 500 with the
  unexpected-error message. In both cases the token request is the only request sent:
  the recordings request is never issued.
\<close>

theorem token_not_2xx:
  assumes "env ''ZOOM_ACCOUNT_ID'' = Some a" "env ''ZOOM_CLIENT_ID'' = Some c"
    "env ''ZOOM_CLIENT_SECRET'' = Some s" "env ''MEETING_ID'' = Some mid"
    "a \<noteq> []" "c \<noteq> []" "s \<noteq> []" "mid \<noteq> []"
    and "fetch P (token_request a c s) = Inr tokenRes"
    and "\<not> ok tokenRes"
  shows "handler V P env =
    (case res_text tokenRes of
       Inr txt \<Rightarrow>
         (\<lparr>statusCode = 500, headers = [], body = ''Failed to get Zoom token.''\<rparr>,
          [Fetch (token_request a c s),
           ConsoleError [LogStr ''Error getting Zoom token:'', LogNum (status tokenRes), LogStr txt]])
     | Inl err \<Rightarrow>
         (\<lparr>statusCode = 500, headers = [], body = ''Unexpected error loading recordings.''\<rparr>,
          [Fetch (token_request a c s),
           ConsoleError [LogStr ''Unhandled error:'', LogErr err]]))"
  using assms(9,10)
  by (simp add: handler_def try_block_configured [OF assms(1-8)]
        token_failed_response_def unexpected_response_def split: sum.splits)

theorem token_not_2xx_witness:
  "fetch (example_platform token_401 (rec_ok three_meetings)) (token_request ''acct'' ''client'' ''secret'')
     = token_401
   \<and> handler Rich (example_platform token_401 (rec_ok three_meetings)) (example_env ''222'') =
     (\<lparr>statusCode = 500, headers = [], body = ''Failed to get Zoom token.''\<rparr>,
      [Fetch (token_request ''acct'' ''client'' ''secret''),
       ConsoleError [LogStr ''Error getting Zoom token:'', LogNum 401,
                     LogStr (''{'' @ [CHR 0x22] @ ''reason'' @ [CHR 0x22] @ '':'' @ [CHR 0x22]
                             @ ''Invalid client_id or client_secret'' @ [CHR 0x22] @ ''}'')]])"
  using token_not_2xx [of "example_env ''222''" "''acct''" "''client''" "''secret''" "''222''"
      "example_platform token_401 (rec_ok three_meetings)"
      "\<lparr>status = 401, res_text = Inr (''{'' @ [CHR 0x22] @ ''reason'' @ [CHR 0x22] @ '':'' @ [CHR 0x22]
                             @ ''Invalid client_id or client_secret'' @ [CHR 0x22] @ ''}''),
          res_json = Inr (Obj [(''reason'', Str ''Invalid client_id or client_secret'')])\<rparr>" Rich]
  by (simp add: example_env_simps example_platform_fetch token_401_def ok_def)

text \<open>
  The claim as first stated (the token-failure message for every answer that is not 2xx)
  fails for a 401 whose body cannot be read.
\<close>

theorem token_not_2xx_counterexample:
  "fetch (example_platform token_401_unreadable (rec_ok three_meetings))
      (token_request ''acct'' ''client'' ''secret'')
     = Inr \<lparr>status = 401, res_text = Inl (NetworkError ''terminated''),
            res_json = Inl (NetworkError ''terminated'')\<rparr>
   \<and> \<not> ok \<lparr>status = 401, res_text = Inl (NetworkError ''terminated''),
            res_json = Inl (NetworkError ''terminated'')\<rparr>
   \<and> fst (handler Plain (example_platform token_401_unreadable (rec_ok three_meetings)) (example_env ''222''))
     = \<lparr>statusCode = 500, headers = [], body = ''Unexpected error loading recordings.''\<rparr>
   \<and> body (fst (handler Plain (example_platform token_401_unreadable (rec_ok three_meetings))
                (example_env ''222'')))
     \<noteq> ''Failed to get Zoom token.''"
  by (simp add: handler_def
        try_block_configured [of "example_env ''222''" "''acct''" "''client''" "''secret''" "''222''"]
        example_env_simps example_platform_fetch token_401_unreadable_def ok_def Let_def
        unexpected_response_def)

subsection \<open>A recordings answer that is not 2xx\<close>

text \<open>
  With the configuration present and an access token obtained, a recordings answer whose
  status is not 2xx and whose text can be read gives status 500 with the
  recordings-failure message, after the two requests and one log line; if reading the
  text rejects, the handler returns the unexpected-error response.
\<close>

theorem recordings_not_2xx:
  assumes "env ''ZOOM_ACCOUNT_ID'' = Some a" "env ''ZOOM_CLIENT_ID'' = Some c"
    "env ''ZOOM_CLIENT_SECRET'' = Some s" "env ''MEETING_ID'' = Some mid"
    "a \<noteq> []" "c \<noteq> []" "s \<noteq> []" "mid \<noteq> []"
    and "fetch P (token_request a c s) = Inr tokenRes" "ok tokenRes"
      "res_json tokenRes = Inr tokenData" "get_prop tokenData ''access_token'' = Inr token"
      "js_ToString (numberToString P) token = Inr accessToken"
    and "fetch P (recordings_request V (user_id env) accessToken) = Inr recRes" "\<not> ok recRes"
  shows "handler V P env =
    (case res_text recRes of
       Inr txt \<Rightarrow>
         (\<lparr>statusCode = 500, headers = [], body = ''Failed to fetch recordings from Zoom.''\<rparr>,
          [Fetch (token_request a c s), Fetch (recordings_request V (user_id env) accessToken),
           ConsoleError [LogStr ''Error fetching recordings:'', LogNum (status recRes), LogStr txt]])
     | Inl err \<Rightarrow>
         (\<lparr>statusCode = 500, headers = [], body = ''Unexpected error loading recordings.''\<rparr>,
          [Fetch (token_request a c s), Fetch (recordings_request V (user_id env) accessToken),
           ConsoleError [LogStr ''Unhandled error:'', LogErr err]]))"
  using assms(9-15)
  by (simp add: handler_def try_block_configured [OF assms(1-8)] fetch_recordings_def Let_def
        recordings_failed_response_def unexpected_response_def split: sum.splits)

theorem recordings_not_2xx_witness:
  "fetch (example_platform token_ok rec_503) (recordings_request Plain ''me'' ''tok'') = rec_503
   \<and> handler Plain (example_platform token_ok rec_503) (example_env ''222'') =
     (\<lparr>statusCode = 500, headers = [], body = ''Failed to fetch recordings from Zoom.''\<rparr>,
      [Fetch (token_request ''acct'' ''client'' ''secret''), Fetch (recordings_request Plain ''me'' ''tok''),
       ConsoleError [LogStr ''Error fetching recordings:'', LogNum 503, LogStr ''Service Unavailable'']])"
  using recordings_not_2xx [of "example_env ''222''" "''acct''" "''client''" "''secret''" "''222''"
      "example_platform token_ok rec_503"
      "\<lparr>status = 200, res_text = Inr (''{'' @ [CHR 0x22] @ ''access_token'' @ [CHR 0x22] @ '':''
                                    @ [CHR 0x22] @ ''tok'' @ [CHR 0x22] @ ''}''),
          res_json = Inr (Obj [(''access_token'', Str ''tok'')])\<rparr>"
      "Obj [(''access_token'', Str ''tok'')]" "Str ''tok''" "''tok''" Plain
      "\<lparr>status = 503, res_text = Inr ''Service Unavailable'', res_json = Inl SyntaxError\<rparr>"]
  by (simp add: example_env_simps example_platform_fetch example_platform_sel token_ok_def rec_503_def
        ok_def)

subsection \<open>Which meetings are shown\<close>


subsection \<open>How many meetings are shown\<close>

text \<open>
  Claim C9, amended. Every page the handler returns (status 200) holds one block for each
  upstream meeting whose id equals the configured one, in upstream order, and no block for
  any other meeting; with no such meeting it holds the no-recordings message instead. Each
  block is a \<^verbatim>\<open><div class="meeting">\<close> element: it opens with that tag and the date line of
  its meeting (the meeting's start time, formatted) and ends with the closing tag. So the
  page shows at most one meeting when at most one upstream meeting carries that id, and
  several when the upstream lists several under it.
\<close>

theorem one_block_per_matching_meeting:
  assumes "statusCode (fst (handler V P env)) = 200"
  shows \<open>\<exists>mid accessToken recRes recData m ms blocks.
      env ''MEETING_ID'' = Some mid
      \<and> fetch P (recordings_request V (user_id env) accessToken) = Inr recRes
      \<and> res_json recRes = Inr recData
      \<and> get_prop recData ''meetings'' = Inr m \<and> array_of (or_else m (Arr [])) = Inr ms
      \<and> meeting_blocks V P (filter (id_is (js_Number mid)) ms) = Inr blocks
      \<and> length blocks = length (filter (id_is (js_Number mid)) ms)
      \<and> list_all2
           (\<lambda>meeting block. \<exists>start_time startTime inner.
                get_prop meeting ''start_time'' = Inr start_time
              \<and> formatDate V P start_time = Inr startTime
              \<and> block = ''<div class="meeting">\<newline>          <div class="date">'' @ startTime
                          @ ''</div>'' @ inner @ ''</div>'')
           (filter (id_is (js_Number mid)) ms) blocks
      \<and> body (fst (handler V P env)) =
          page_head V mid
          @ (if blocks = [] then ''<p>No recordings found yet for this meeting.</p>''
             else concat blocks)
          @ page_tail V\<close>
proof -
  obtain mid accessToken recRes recData where
    src: "env ''MEETING_ID'' = Some mid"
      "fetch P (recordings_request V (user_id env) accessToken) = Inr recRes"
      "res_json recRes = Inr recData"
    and r: "respond V P mid recData = Inr (fst (handler V P env))"
    using handler_200 [OF assms] by blast
  from r obtain m ms where m: "get_prop recData ''meetings'' = Inr m"
      "array_of (or_else m (Arr [])) = Inr ms"
    and nn: "\<not> (Null \<in> set ms \<or> Undefined \<in> set ms)"
    and b: "and_then (build_html V P mid (filter (id_is (js_Number mid)) ms))
              (\<lambda>html. Inr (html_response html)) = Inr (fst (handler V P env))"
    by (auto simp: respond_def Let_def and_then_eq_Inr filter_array_id_matches split: if_splits)
  let ?fs = "filter (id_is (js_Number mid)) ms"
  let ?block = \<open>\<lambda>meeting block. \<exists>start_time startTime inner.
                get_prop meeting ''start_time'' = Inr start_time
              \<and> formatDate V P start_time = Inr startTime
              \<and> block = ''<div class="meeting">\<newline>          <div class="date">'' @ startTime
                          @ ''</div>'' @ inner @ ''</div>''\<close>
  from b obtain html where h: "build_html V P mid ?fs = Inr html"
    and "Inr (html_response html) = (Inr (fst (handler V P env)) :: js_error + http_response)"
    unfolding and_then_eq_Inr by blast
  then have "fst (handler V P env) = html_response html"
    by simp
  then have bd: "body (fst (handler V P env)) = html"
    by (simp add: html_response_def)
  have "\<exists>blocks. meeting_blocks V P ?fs = Inr blocks \<and> length blocks = length ?fs
      \<and> list_all2 ?block ?fs blocks
      \<and> html = page_head V mid
               @ (if blocks = [] then ''<p>No recordings found yet for this meeting.</p>''
                  else concat blocks)
               @ page_tail V"
  proof (cases "?fs = []")
    case True
    then have "meeting_blocks V P ?fs = Inr []" by (simp add: meeting_blocks_def)
    moreover have "html = page_head V mid @ ''<p>No recordings found yet for this meeting.</p>'' @ page_tail V"
      using h True by (simp add: build_html_blocks no_recordings_def)
    ultimately show ?thesis using True by simp
  next
    case False
    then obtain blocks where bl: "meeting_blocks V P ?fs = Inr blocks"
      and html: "html = page_head V mid @ concat blocks @ page_tail V"
      using h by (auto simp: build_html_blocks and_then_eq_Inr)
    from bl have len: "length blocks = length ?fs"
      using sequence_length [of "map (meeting_step V P []) ?fs" blocks]
      by (simp add: meeting_blocks_def)
    from bl have "list_all2 (\<lambda>m b. meeting_step V P [] m = Inr b) ?fs blocks"
      by (simp add: meeting_blocks_def sequence_list_all2)
    then have shape: "list_all2 ?block ?fs blocks"
      by (rule list_all2_mono) (rule meeting_step_block)
    from len have "blocks \<noteq> []" using False by auto
    then show ?thesis using bl html len shape by auto
  qed
  then show ?thesis using src m bd by blast
qed

theorem one_block_per_matching_meeting_witness:
  \<open>statusCode (fst (handler Plain (example_platform token_ok (rec_ok three_meetings)) (example_env ''222''))) = 200
   \<and> body (fst (handler Plain (example_platform token_ok (rec_ok three_meetings)) (example_env ''222'')))
       = page_head Plain ''222''
         @ (''<div class="meeting">\<newline>''
            @ ''          <div class="date">Dec 6, 2025, 3:40 PM</div>\<newline>''
            @ ''          <div class="topic">Monthly meeting</div>\<newline>''
            @ ''        <div class="file">\<newline>''
            @ ''              '' @ [CHR 0xC3, CHR 0xA2, CHR 0xE2, CHR 0x82, CHR 0xAC, CHR 0xC2, CHR 0xA2]
            @ '' <a href="https://zoom.us/rec/play/b" target="_blank" rel="noopener noreferrer">\<newline>''
            @ ''                MP4 (Dec 6, 2025, 3:40 PM)\<newline>''
            @ ''              </a>\<newline>''
            @ ''            </div></div>'')
         @ page_tail Plain
   \<and> (\<exists>ms blocks. get_prop three_meetings ''meetings'' = Inr (Arr ms)
        \<and> meeting_blocks Plain (example_platform token_ok (rec_ok three_meetings))
             (filter (id_is (js_Number ''222'')) ms) = Inr blocks
        \<and> length blocks = 1
        \<and> body (fst (handler Plain (example_platform token_ok (rec_ok three_meetings)) (example_env ''222'')))
            = page_head Plain ''222'' @ concat blocks @ page_tail Plain)\<close>
proof -
  let ?P = "example_platform token_ok (rec_ok three_meetings)"
  have p: "fst (handler Plain ?P (example_env ''222''))
       = html_response (page_head Plain ''222'' @ video_block Plain ''https://zoom.us/rec/play/b'' @ page_tail Plain)"
    by (simp add: rec_ok_def example_handler example_respond_222 [unfolded rec_ok_def])
  then have s: "statusCode (fst (handler Plain ?P (example_env ''222''))) = 200"
    by (simp add: html_response_def)
  have f: "filter (id_is (js_Number ''222'')) example_meetings
      = [example_meeting 222 [recording_file ''MP4'' ''https://zoom.us/rec/play/b'']]"
    by (simp add: example_meetings_def js_Number_examples)
  have mb: "meeting_blocks Plain ?P (filter (id_is (js_Number ''222'')) example_meetings)
      = Inr [video_block Plain ''https://zoom.us/rec/play/b'']"
    by (simp add: f meeting_blocks_def example_meeting_step)
  have lit: \<open>video_block Plain ''https://zoom.us/rec/play/b'' =
         (''<div class="meeting">\<newline>''
            @ ''          <div class="date">Dec 6, 2025, 3:40 PM</div>\<newline>''
            @ ''          <div class="topic">Monthly meeting</div>\<newline>''
            @ ''        <div class="file">\<newline>''
            @ ''              '' @ [CHR 0xC3, CHR 0xA2, CHR 0xE2, CHR 0x82, CHR 0xAC, CHR 0xC2, CHR 0xA2]
            @ '' <a href="https://zoom.us/rec/play/b" target="_blank" rel="noopener noreferrer">\<newline>''
            @ ''                MP4 (Dec 6, 2025, 3:40 PM)\<newline>''
            @ ''              </a>\<newline>''
            @ ''            </div></div>'')\<close>
    by (simp add: video_block_def meeting_open_plain_def file_entry_plain_def meeting_close_def)
  have b: "body (fst (handler Plain ?P (example_env ''222'')))
      = page_head Plain ''222'' @ video_block Plain ''https://zoom.us/rec/play/b'' @ page_tail Plain"
    using p by (simp add: html_response_def)
  show ?thesis
    using one_block_per_matching_meeting [OF s] s mb b
    unfolding lit [symmetric]
    by (auto simp: three_meetings_def)
qed

text \<open>
  The claim as first stated (at most one meeting block on every page) fails when the
  upstream lists two recordings under the configured id, as it does for a recurring
  meeting: the page holds both blocks.
\<close>

theorem one_block_per_matching_meeting_counterexample:
  "fst (handler Rich (example_platform token_ok (rec_ok recurring_meetings)) (example_env ''222''))
     = \<lparr>statusCode = 200, headers = [(''Content-Type'', ''text/html; charset=utf-8'')],
        body = page_head Rich ''222''
               @ (meeting_open_rich ''Dec 6, 2025, 5:40 PM''
                  @ file_entry_rich ''https://zoom.us/rec/play/b'' ''VIDEO'' @ meeting_close)
               @ (meeting_open_rich ''Dec 6, 2025, 5:40 PM''
                  @ file_entry_rich ''https://zoom.us/rec/play/d'' ''VIDEO'' @ meeting_close)
               @ page_tail Rich\<rparr>
   \<and> meeting_blocks Rich (example_platform token_ok (rec_ok recurring_meetings))
        [example_meeting 222 [recording_file ''MP4'' ''https://zoom.us/rec/play/b''],
         example_meeting 222 [recording_file ''MP4'' ''https://zoom.us/rec/play/d'']]
     = Inr [meeting_open_rich ''Dec 6, 2025, 5:40 PM''
              @ file_entry_rich ''https://zoom.us/rec/play/b'' ''VIDEO'' @ meeting_close,
            meeting_open_rich ''Dec 6, 2025, 5:40 PM''
              @ file_entry_rich ''https://zoom.us/rec/play/d'' ''VIDEO'' @ meeting_close]"
  by (simp add: rec_ok_def example_handler example_respond_recurring [unfolded rec_ok_def]
        html_response_def video_block_def meeting_blocks_def example_meeting_step)

subsection \<open>Files: dropped, sorted, labelled\<close>

lemma order_or_99_rank:
  "k \<notin> set object_prototype_names \<Longrightarrow> order_or_99 k = Fin (of_int (rank_of k))"
  by (simp add: order_or_99_def rank_of_def)

lemma rank_of_bounds: "1 \<le> rank_of k" "rank_of k \<le> 99"
  by (simp_all add: rank_of_def)

lemma compare_files_rankable:
  assumes "rankable P a" "rankable P b"
  shows "compare_files P a b =
     Inr (js_minus (Fin (of_int (file_rank P a))) (Fin (of_int (file_rank P b))))"
proof -
  obtain ka where ka: "type_key P a = Inr ka" "ka \<notin> set object_prototype_names"
    using assms(1) by (auto simp: rankable_def split: sum.splits)
  obtain kb where kb: "type_key P b = Inr kb" "kb \<notin> set object_prototype_names"
    using assms(2) by (auto simp: rankable_def split: sum.splits)
  from ka(1) obtain ta where ta: "get_prop a ''file_type'' = Inr ta"
      "js_ToString (numberToString P) ta = Inr ka"
    by (auto simp: type_key_def and_then_eq_Inr)
  from kb(1) obtain tb where tb: "get_prop b ''file_type'' = Inr tb"
      "js_ToString (numberToString P) tb = Inr kb"
    by (auto simp: type_key_def and_then_eq_Inr)
  show ?thesis
    by (simp add: compare_files_def ta tb file_rank_def ka kb order_or_99_rank)
qed

lemma positive_compare_rankable:
  assumes "rankable P a" "rankable P b"
  shows "\<exists>v. compare_files P a b = Inr v \<and> (positive v \<longleftrightarrow> file_rank P b < file_rank P a)"
proof -
  have "1 \<le> file_rank P a \<and> file_rank P a \<le> 99" "1 \<le> file_rank P b \<and> file_rank P b \<le> 99"
    using rank_of_bounds by (auto simp: file_rank_def split: sum.splits)
  then have "\<bar>file_rank P a - file_rank P b\<bar> < 99" by linarith
  also have "(99::int) < 2 ^ 53" by simp
  finally have "\<bar>file_rank P a - file_rank P b\<bar> < 2 ^ 53" .
  then show ?thesis
    using compare_files_rankable [OF assms] positive_js_minus_int by simp
qed

lemma insert_sorted_rankable:
  assumes "rankable P x" "\<forall>y \<in> set ys. rankable P y"
  shows "insert_sorted (compare_files P) x ys = Inr (insort_key (file_rank P) x ys)"
  using assms(2)
proof (induction ys)
  case Nil
  show ?case by simp
next
  case (Cons y ys)
  then have y: "rankable P y" and IH: "insert_sorted (compare_files P) x ys = Inr (insort_key (file_rank P) x ys)"
    by simp_all
  obtain v where v: "compare_files P x y = Inr v" "positive v \<longleftrightarrow> file_rank P y < file_rank P x"
    using positive_compare_rankable [OF assms(1) y] by blast
  show ?case
    by (simp add: v IH not_less)
qed

text \<open>
  On files it can rank, the sort with the handler's comparator is the stable sort by
  rank: ascending ranks, files of equal rank in their original order.
\<close>

lemma sort_array_rankable:
  assumes "\<forall>x \<in> set xs. rankable P x"
  shows "sort_array (compare_files P) xs = Inr (sort_key (file_rank P) xs)"
  using assms
proof (induction xs)
  case Nil
  show ?case by simp
next
  case (Cons x xs)
  then have "sort_array (compare_files P) xs = Inr (sort_key (file_rank P) xs)" and "rankable P x"
    and "\<forall>y \<in> set (sort_key (file_rank P) xs). rankable P y"
    by simp_all
  then show ?case by (simp add: insert_sorted_rankable)
qed

lemma not_summary_or_chat_filter:
  assumes "Null \<notin> set files" "Undefined \<notin> set files"
  shows "filter_array not_summary_or_chat files =
     Inr (filter (\<lambda>f. get_prop f ''file_type'' \<noteq> Inr (Str ''SUMMARY'')
                     \<and> get_prop f ''file_type'' \<noteq> Inr (Str ''CHAT'')) files)"
  using assms
proof (induction files)
  case Nil
  show ?case by simp
next
  case (Cons f fs)
  then obtain t where "get_prop f ''file_type'' = Inr t"
    using get_prop_throws [of f "''file_type''"] by (cases "get_prop f ''file_type''") auto
  then show ?case using Cons by (simp add: not_summary_or_chat_def)
qed

lemma rankable_not_null: "rankable P f \<Longrightarrow> f \<noteq> Null \<and> f \<noteq> Undefined"
  by (auto simp: rankable_def type_key_def)

lemma label_of_cases:
  "label_of (Str ''MP4'') = Str ''VIDEO''" "label_of (Str ''M4A'') = Str ''AUDIO''"
  "t \<noteq> Str ''MP4'' \<Longrightarrow> t \<noteq> Str ''M4A'' \<Longrightarrow> label_of t = t"
  by (simp_all add: label_of_def)

text \<open>
  In the second copy, for a meeting whose files the comparator can rank (each has a
  \<^verbatim>\<open>file_type\<close> whose string names no member of \<^verbatim>\<open>Object.prototype\<close>), the files of
  type \<^verbatim>\<open>SUMMARY\<close> or \<^verbatim>\<open>CHAT\<close> are dropped, the rest is sorted stably by rank (\<^verbatim>\<open>MP4\<close> 1,
  \<^verbatim>\<open>M4A\<close> 2, any other such type 99; \<open>sort_key\<close> is the library's stable sort) and
  rendered in that order, \<^verbatim>\<open>MP4\<close> labelled \<^verbatim>\<open>VIDEO\<close>, \<^verbatim>\<open>M4A\<close> labelled \<^verbatim>\<open>AUDIO\<close>, any
  other type under its own name.
\<close>

theorem rich_files_dropped_sorted_labelled:
  assumes "get_prop meeting ''start_time'' = Inr start_time"
    and "formatDate Rich P start_time = Inr startTime"
    and "get_prop meeting ''recording_files'' = Inr (Arr files)"
    and "\<forall>f \<in> set files. rankable P f"
  shows "meeting_step Rich P html meeting =
      and_then
        (forEach (file_step Rich P)
           (sort_key (file_rank P)
              (filter (\<lambda>f. get_prop f ''file_type'' \<noteq> Inr (Str ''SUMMARY'')
                          \<and> get_prop f ''file_type'' \<noteq> Inr (Str ''CHAT'')) files))
           (html @ meeting_open_rich startTime))
        (\<lambda>html. Inr (html @ meeting_close))
     \<and> label_of (Str ''MP4'') = Str ''VIDEO'' \<and> label_of (Str ''M4A'') = Str ''AUDIO''
     \<and> (\<forall>t. t \<noteq> Str ''MP4'' \<and> t \<noteq> Str ''M4A'' \<longrightarrow> label_of t = t)
     \<and> (\<forall>k. file_rank P (Obj [(''file_type'', Str k)]) =
              (if k = ''MP4'' then 1 else if k = ''M4A'' then 2 else 99))"
proof -
  let ?kept = "filter (\<lambda>f. get_prop f ''file_type'' \<noteq> Inr (Str ''SUMMARY'')
                          \<and> get_prop f ''file_type'' \<noteq> Inr (Str ''CHAT'')) files"
  have "Null \<notin> set files" "Undefined \<notin> set files"
    using assms(4) rankable_not_null by blast+
  then have f: "filter_array not_summary_or_chat files = Inr ?kept"
    by (rule not_summary_or_chat_filter)
  have "\<forall>x \<in> set ?kept. rankable P x" using assms(4) by simp
  then have s: "sort_array (compare_files P) ?kept = Inr (sort_key (file_rank P) ?kept)"
    by (rule sort_array_rankable)
  have step: "meeting_step Rich P html meeting =
      and_then (forEach (file_step Rich P) (sort_key (file_rank P) ?kept)
           (html @ meeting_open_rich startTime))
        (\<lambda>html. Inr (html @ meeting_close))"
    by (simp add: meeting_step_def meeting_step_rich_def assms(1-3) or_else_def f s)
  have rank: "file_rank P (Obj [(''file_type'', Str k)]) =
              (if k = ''MP4'' then 1 else if k = ''M4A'' then 2 else 99)" for k
    by (simp add: file_rank_def type_key_def rank_of_def)
  show ?thesis
    using step rank by (simp add: label_of_cases)
qed

theorem rich_files_dropped_sorted_labelled_witness:
  "list_all (rankable (example_platform token_ok (rec_ok three_meetings))) spec_example_files
   \<and> meeting_step Rich (example_platform token_ok (rec_ok three_meetings)) ''<body>''
        (Obj [(''recording_files'', Arr spec_example_files)])
     = Inr (''<body>'' @ meeting_open_rich [] @ file_entry_rich ''u2'' ''VIDEO''
            @ file_entry_rich ''u1'' ''AUDIO'' @ meeting_close)"
proof -
  let ?P = "example_platform token_ok (rec_ok three_meetings)"
  have r: "list_all (rankable ?P) spec_example_files"
    by (simp add: spec_example_files_def rankable_def type_key_def object_prototype_names_def)
  then have b: "\<forall>f \<in> set spec_example_files. rankable ?P f"
    by (simp add: list_all_iff)
  have k: "sort_key (file_rank ?P)
         (filter (\<lambda>f. get_prop f ''file_type'' \<noteq> Inr (Str ''SUMMARY'')
                          \<and> get_prop f ''file_type'' \<noteq> Inr (Str ''CHAT'')) spec_example_files)
       = [Obj [(''file_type'', Str ''MP4''), (''play_url'', Str ''u2'')],
          Obj [(''file_type'', Str ''M4A''), (''play_url'', Str ''u1'')]]"
    by (simp add: spec_example_files_def file_rank_def type_key_def rank_of_def)
  show ?thesis
    using rich_files_dropped_sorted_labelled [of "Obj [(''recording_files'', Arr spec_example_files)]"
        Undefined ?P "[]" spec_example_files "''<body>''", OF _ _ _ b] r
    by (simp add: formatDate_def k file_step_def file_step_rich_def label_of_def example_platform_sel)
qed

subsection \<open>A type named like a member of \<^verbatim>\<open>Object.prototype\<close>\<close>

text \<open>
  Claim C4 at the input where the code leaves it. A file of type \<^verbatim>\<open>constructor\<close> is not
  ranked 99: \<^verbatim>\<open>order["constructor"]\<close> is the inherited function, the comparator returns
  \<^verbatim>\<open>NaN\<close> against every file, the sort reads that as 0, and the video file that follows
  stays behind it. The page of the second copy lists \<^verbatim>\<open>constructor\<close> (u1) above \<^verbatim>\<open>VIDEO\<close>
  (u2), where ranks 99 and 1 would put the video first.
\<close>

theorem inherited_type_name_outranks_video:
  "compare_files (example_platform token_ok (rec_ok inherited_name_meetings))
      (Obj [(''file_type'', Str ''constructor''), (''play_url'', Str ''u1'')])
      (Obj [(''file_type'', Str ''MP4''), (''play_url'', Str ''u2'')]) = Inr NaN
   \<and> handler Rich (example_platform token_ok (rec_ok inherited_name_meetings)) (example_env ''222'')
     = (\<lparr>statusCode = 200, headers = [(''Content-Type'', ''text/html; charset=utf-8'')],
         body = page_head Rich ''222'' @ meeting_open_rich ''Dec 6, 2025, 5:40 PM''
                @ file_entry_rich ''u1'' ''constructor'' @ file_entry_rich ''u2'' ''VIDEO''
                @ meeting_close @ page_tail Rich\<rparr>,
        [Fetch (token_request ''acct'' ''client'' ''secret''), Fetch (recordings_request Rich ''me'' ''tok'')])"
proof -
  let ?P = "example_platform token_ok (rec_ok inherited_name_meetings)"
  have c: "compare_files P
      (Obj [(''file_type'', Str ''constructor''), (''play_url'', Str ''u1'')])
      (Obj [(''file_type'', Str ''MP4''), (''play_url'', Str ''u2'')]) = Inr NaN" for P
    by (simp add: compare_files_def order_or_99_def object_prototype_names_def)
  have f: "filter_array not_summary_or_chat inherited_name_files = Inr inherited_name_files"
    by (simp add: inherited_name_files_def not_summary_or_chat_def)
  have s: "sort_array (compare_files ?P) inherited_name_files = Inr inherited_name_files"
    by (simp add: inherited_name_files_def c)
  have e: "forEach (file_step Rich ?P) inherited_name_files html
      = Inr (html @ file_entry_rich ''u1'' ''constructor'' @ file_entry_rich ''u2'' ''VIDEO'')" for html
    by (simp add: inherited_name_files_def file_step_def file_step_rich_def label_of_def
          example_platform_sel)
  have m: "meeting_step Rich ?P [] (example_meeting 222 inherited_name_files)
      = Inr (meeting_open_rich ''Dec 6, 2025, 5:40 PM''
             @ file_entry_rich ''u1'' ''constructor'' @ file_entry_rich ''u2'' ''VIDEO'' @ meeting_close)"
    by (simp add: meeting_step_def meeting_step_rich_def example_meeting_def or_else_def
          example_formatDate f s e)
  have r: "respond Rich ?P ''222'' inherited_name_meetings
      = Inr (html_response (page_head Rich ''222'' @ meeting_open_rich ''Dec 6, 2025, 5:40 PM''
                @ file_entry_rich ''u1'' ''constructor'' @ file_entry_rich ''u2'' ''VIDEO''
                @ meeting_close @ page_tail Rich))"
    by (simp add: respond_def inherited_name_meetings_def or_else_def filter_array_id_matches
          js_Number_examples build_html_blocks meeting_blocks_def m [unfolded inherited_name_meetings_def])
  show ?thesis
    using c by (simp add: rec_ok_def example_handler r [unfolded rec_ok_def] html_response_def)
qed

subsection \<open>Files without a play URL\<close>

lemma has_play_url_step:
  assumes "file \<noteq> Null" "file \<noteq> Undefined" "\<not> has_play_url file"
  shows "file_step V P html file = Inr html"
proof -
  obtain u where u: "get_prop file ''play_url'' = Inr u"
    using assms(1,2) get_prop_throws [of "file" "''play_url''"] by (cases "get_prop file ''play_url''") auto
  then have "\<not> truthy u" using assms(3) by (simp add: has_play_url_def)
  then show ?thesis using u
    by (cases V) (simp_all add: file_step_def file_step_plain_def file_step_rich_def)
qed

text \<open>
  Claim C5. In both copies, the loop callback leaves \<^verbatim>\<open>html\<close> as it is for a file whose
  \<^verbatim>\<open>play_url\<close> is missing or falsy, whatever its type and other fields: no entry, so no
  anchor tag, is produced for it. The loop over a list of files therefore appends what it
  would append for the files with a play URL alone.
\<close>

theorem no_entry_without_play_url:
  "(get_prop file ''play_url'' = Inr u \<and> \<not> truthy u \<longrightarrow> file_step V P html file = Inr html)
   \<and> (Null \<notin> set files \<and> Undefined \<notin> set files \<longrightarrow>
        forEach (file_step V P) files html = forEach (file_step V P) (filter has_play_url files) html)"
proof (intro conjI impI)
  assume "get_prop file ''play_url'' = Inr u \<and> \<not> truthy u"
  then show "file_step V P html file = Inr html"
    by (cases V) (simp_all add: file_step_def file_step_plain_def file_step_rich_def)
next
  assume "Null \<notin> set files \<and> Undefined \<notin> set files"
  then show "forEach (file_step V P) files html = forEach (file_step V P) (filter has_play_url files) html"
  proof (induction files arbitrary: html)
    case Nil
    show ?case by simp
  next
    case (Cons f fs)
    then have "\<And>h. forEach (file_step V P) fs h = forEach (file_step V P) (filter has_play_url fs) h"
      and f: "f \<noteq> Null" "f \<noteq> Undefined"
      by auto
    then have fs: "forEach (file_step V P) fs = forEach (file_step V P) (filter has_play_url fs)"
      by (intro ext)
    show ?case
    proof (cases "has_play_url f")
      case True
      then show ?thesis by (simp add: fs)
    next
      case False
      then show ?thesis using has_play_url_step [OF f False, of V P html] by (simp add: fs)
    qed
  qed
qed

theorem no_entry_without_play_url_witness:
  "get_prop (Obj [(''file_type'', Str ''MP4''), (''play_url'', Str [])]) ''play_url'' = Inr (Str [])
   \<and> \<not> truthy (Str [])
   \<and> file_step Rich (example_platform token_ok (rec_ok three_meetings)) ''<p>''
        (Obj [(''file_type'', Str ''MP4''), (''play_url'', Str [])]) = Inr ''<p>''
   \<and> get_prop (Obj [(''file_type'', Str ''M4A'')]) ''play_url'' = Inr Undefined
   \<and> \<not> truthy Undefined
   \<and> file_step Plain (example_platform token_ok (rec_ok three_meetings)) ''<p>''
        (Obj [(''file_type'', Str ''M4A'')]) = Inr ''<p>''"
  using no_entry_without_play_url [of "Obj [(''file_type'', Str ''MP4''), (''play_url'', Str [])]"
      "Str []" Rich "example_platform token_ok (rec_ok three_meetings)" "''<p>''" "[]"]
    no_entry_without_play_url [of "Obj [(''file_type'', Str ''M4A'')]"
      Undefined Plain "example_platform token_ok (rec_ok three_meetings)" "''<p>''" "[]"]
  by simp

subsection \<open>Timestamps\<close>

text \<open>
  Claim C6. On a falsy argument (the empty string, or \<^verbatim>\<open>undefined\<close> for a missing
  field, or any other falsy value) \<^verbatim>\<open>formatDate\<close> returns the empty string: it does not
  throw and does not reach the platform's date formatting.
\<close>

theorem formatDate_empty_input:
  "\<not> truthy isoString \<Longrightarrow> formatDate V P isoString = Inr []"
  by (simp add: formatDate_def)

theorem formatDate_empty_input_witness:
  "\<not> truthy (Str []) \<and> \<not> truthy Undefined
   \<and> formatDate Plain (example_platform token_ok (rec_ok three_meetings)) (Str []) = Inr []
   \<and> formatDate Rich (example_platform token_ok (rec_ok three_meetings)) Undefined = Inr []"
  using formatDate_empty_input [of "Str []" Plain "example_platform token_ok (rec_ok three_meetings)"]
    formatDate_empty_input [of Undefined Rich "example_platform token_ok (rec_ok three_meetings)"]
  by simp

subsection \<open>Where the flow throws\<close>

lemma isl_and_then: "isl (and_then m f) = (isl m \<or> isl (f (projr m)))"
  by (cases m) simp_all

lemma isl_sequence: "isl (sequence ms) = (\<exists>m \<in> set ms. isl m)"
  by (induction ms) (auto split: sum.splits)

lemma get_prop_prop_of:
  "get_prop v k = (if nullish v then Inl TypeError else Inr (prop_of v k))"
  by (cases v) (simp_all add: nullish_def prop_of_def split: option.splits)

lemma falsy_converts: "\<not> truthy v \<Longrightarrow> \<not> isl (js_ToString nts v)"
  by (cases v) simp_all

lemma isl_ToString_or_else:
  "isl (js_ToString nts (or_else v (Str s))) = isl (js_ToString nts v)"
  using falsy_converts [of v nts] by (simp add: or_else_def)

lemma isl_ToString_label_of:
  "isl (js_ToString nts (label_of v)) = isl (js_ToString nts v)"
  by (auto simp: label_of_def Let_def)

lemma isl_formatDate: "isl (formatDate V P v) = date_throws V P v"
  by (simp add: formatDate_def date_throws_def)

lemma file_step_throws: "isl (file_step V P html f) = file_throws V P f"
  by (cases V)
     (auto simp: file_step_def file_step_plain_def file_step_rich_def file_throws_def
           get_prop_prop_of isl_and_then Let_def isl_formatDate toString_throws_def
           isl_ToString_or_else isl_ToString_label_of)

lemma forEach_file_step_throws:
  "isl (forEach (file_step V P) fs html) = (\<exists>f \<in> set fs. file_throws V P f)"
  by (simp add: sequence_append_steps [where f = "file_step V P", OF file_step_appends]
        isl_and_then isl_sequence file_step_throws)

lemma filter_array_not_summary_or_chat:
  "filter_array not_summary_or_chat fs =
     (if \<exists>f \<in> set fs. nullish f then Inl TypeError
      else Inr (filter (\<lambda>f. prop_of f ''file_type'' \<noteq> Str ''SUMMARY''
                          \<and> prop_of f ''file_type'' \<noteq> Str ''CHAT'') fs))"
  by (induction fs) (auto simp: not_summary_or_chat_def get_prop_prop_of)

text \<open>
  The sort throws exactly when it compares (two elements or more) and the comparator
  throws on one of the elements; otherwise it returns the elements it was given.
\<close>

lemma insert_sorted_set:
  "insert_sorted cmp x ys = Inr r \<Longrightarrow> set r = insert x (set ys) \<and> length r = Suc (length ys)"
  by (induction ys arbitrary: r) (auto simp: and_then_eq_Inr split: if_splits)

lemma sort_array_set:
  "sort_array cmp xs = Inr ys \<Longrightarrow> set ys = set xs \<and> length ys = length xs"
proof (induction xs arbitrary: ys)
  case Nil
  then show ?case by simp
next
  case (Cons x xs)
  then obtain zs where "sort_array cmp xs = Inr zs" "insert_sorted cmp x zs = Inr ys"
    by (auto simp: and_then_eq_Inr)
  then show ?case using Cons.IH [of zs] insert_sorted_set [of cmp x zs ys] by simp
qed

lemma insert_sorted_returns:
  assumes "\<And>a b. isl (cmp a b) = (bad a \<or> bad b)" "\<not> bad x" "\<forall>y \<in> set ys. \<not> bad y"
  shows "\<not> isl (insert_sorted cmp x ys)"
  using assms(3)
proof (induction ys)
  case Nil
  show ?case by simp
next
  case (Cons y ys)
  then have "\<not> isl (cmp x y)" using assms(1,2) by simp
  then show ?case using Cons by (cases "cmp x y") (simp_all add: isl_and_then)
qed

lemma insert_sorted_throws:
  assumes "\<And>a b. isl (cmp a b) = (bad a \<or> bad b)" "\<forall>y \<in> set ys. \<not> bad y"
  shows "isl (insert_sorted cmp x (y # ys)) = (bad x \<or> bad y)"
proof (cases "cmp x y")
  case (Inl e)
  then show ?thesis using assms(1) [of x y] by simp
next
  case (Inr v)
  then have "\<not> bad x" "\<not> bad y" using assms(1) [of x y] by simp_all
  then show ?thesis
    using Inr insert_sorted_returns [of cmp bad x ys, OF assms(1) _ assms(2)]
    by (simp add: isl_and_then)
qed

lemma sort_array_throws:
  assumes "\<And>a b. isl (cmp a b) = (bad a \<or> bad b)"
  shows "isl (sort_array cmp xs) = (2 \<le> length xs \<and> (\<exists>x \<in> set xs. bad x))"
proof (induction xs)
  case Nil
  show ?case by simp
next
  case (Cons x xs)
  show ?case
  proof (cases "sort_array cmp xs")
    case (Inl e)
    then show ?thesis using Cons by auto
  next
    case (Inr ys)
    then have s: "set ys = set xs" "length ys = length xs"
      using sort_array_set [of cmp xs ys] by simp_all
    from Inr Cons have no: "\<not> (2 \<le> length xs \<and> (\<exists>x \<in> set xs. bad x))"
      by simp
    show ?thesis
    proof (cases ys)
      case Nil
      then show ?thesis using Inr s by simp
    next
      case (Cons z zs)
      have tl: "\<forall>y \<in> set zs. \<not> bad y"
      proof (cases zs)
        case Nil
        then show ?thesis by simp
      next
        case (Cons w ws)
        then have "2 \<le> length xs" using s(2) \<open>ys = z # zs\<close> by simp
        then show ?thesis using no s(1) \<open>ys = z # zs\<close> by auto
      qed
      have "isl (sort_array cmp (x # xs)) = (bad x \<or> bad z)"
        using Inr Cons insert_sorted_throws [of cmp bad zs x z, OF assms tl] by simp
      moreover have "bad z = (\<exists>y \<in> set xs. bad y)"
      proof (cases zs)
        case Nil
        then show ?thesis using s(1) \<open>ys = z # zs\<close> by auto
      next
        case (Cons w ws)
        then have "2 \<le> length xs" using s(2) \<open>ys = z # zs\<close> by simp
        then show ?thesis using no s(1) \<open>ys = z # zs\<close> by auto
      qed
      moreover have "2 \<le> length (x # xs)" using s(2) Cons by simp
      ultimately show ?thesis by auto
    qed
  qed
qed

lemma compare_files_throws:
  "isl (compare_files P a b) =
     ((nullish a \<or> toString_throws P (prop_of a ''file_type''))
      \<or> (nullish b \<or> toString_throws P (prop_of b ''file_type'')))"
  by (auto simp: compare_files_def get_prop_prop_of isl_and_then toString_throws_def)

lemma array_of_listed_files:
  "array_of (or_else (prop_of m ''recording_files'') (Arr [])) =
     (case listed_files m of None \<Rightarrow> Inl TypeError | Some fs \<Rightarrow> Inr fs)"
  by (cases "or_else (prop_of m ''recording_files'') (Arr [])") (simp_all add: listed_files_def)

lemma meeting_step_plain_throws:
  "isl (meeting_step_plain P html m) = meeting_throws Plain P m"
  by (auto simp: meeting_step_plain_def meeting_throws_def get_prop_prop_of isl_and_then Let_def
        isl_formatDate toString_throws_def isl_ToString_or_else array_of_listed_files
        forEach_file_step_throws
      split: option.splits)

lemma meeting_step_rich_throws:
  "isl (meeting_step_rich P html m) = meeting_throws Rich P m"
proof (cases "nullish m \<or> date_throws Rich P (prop_of m ''start_time'') \<or> listed_files m = None")
  case True
  then show ?thesis
    by (auto simp: meeting_step_rich_def meeting_throws_def get_prop_prop_of isl_and_then Let_def
          isl_formatDate array_of_listed_files)
next
  case False
  then obtain fs where fs: "listed_files m = Some fs" by auto
  define kept where "kept = filter (\<lambda>f. prop_of f ''file_type'' \<noteq> Str ''SUMMARY''
                                          \<and> prop_of f ''file_type'' \<noteq> Str ''CHAT'') fs"
  obtain startTime where st: "formatDate Rich P (prop_of m ''start_time'') = Inr startTime"
    using False isl_formatDate [of Rich P "prop_of m ''start_time''"]
    by (cases "formatDate Rich P (prop_of m ''start_time'')") auto
  have step: "meeting_step_rich P html m =
      and_then (filter_array not_summary_or_chat fs) (\<lambda>files.
      and_then (sort_array (compare_files P) files) (\<lambda>files.
      and_then (forEach (file_step Rich P) files (html @ meeting_open_rich startTime)) (\<lambda>html.
      Inr (html @ meeting_close))))"
    using False fs st
    by (simp add: meeting_step_rich_def get_prop_prop_of Let_def array_of_listed_files)
  have mt: "meeting_throws Rich P m =
      ((\<exists>f \<in> set fs. nullish f)
       \<or> (2 \<le> length kept \<and> (\<exists>f \<in> set kept. toString_throws P (prop_of f ''file_type'')))
       \<or> (\<exists>f \<in> set kept. file_throws Rich P f))"
    using False fs by (simp add: meeting_throws_def kept_def Let_def)
  show ?thesis
  proof (cases "\<exists>f \<in> set fs. nullish f")
    case True
    then show ?thesis unfolding step mt by (simp add: filter_array_not_summary_or_chat)
  next
    case nn: False
    then have f: "filter_array not_summary_or_chat fs = Inr kept"
      by (simp add: filter_array_not_summary_or_chat kept_def)
    have kept_nn: "\<forall>f \<in> set kept. \<not> nullish f"
      using nn by (auto simp: kept_def)
    have sort: "isl (sort_array (compare_files P) kept) =
        (2 \<le> length kept \<and> (\<exists>f \<in> set kept. toString_throws P (prop_of f ''file_type'')))"
      using sort_array_throws [of "compare_files P"
          "\<lambda>f. nullish f \<or> toString_throws P (prop_of f ''file_type'')" kept,
          OF compare_files_throws] kept_nn
      by auto
    show ?thesis
    proof (cases "sort_array (compare_files P) kept")
      case (Inl e)
      then show ?thesis using sort unfolding step mt f by simp
    next
      case (Inr sorted)
      then have "set sorted = set kept" using sort_array_set by blast
      then show ?thesis
        using sort Inr nn unfolding step mt f
        by (auto simp: isl_and_then forEach_file_step_throws)
    qed
  qed
qed

lemma meeting_step_throws: "isl (meeting_step V P html m) = meeting_throws V P m"
  by (cases V) (simp_all add: meeting_step_def meeting_step_plain_throws meeting_step_rich_throws)

lemma build_html_throws:
  "isl (build_html V P mid filtered) = (\<exists>m \<in> set filtered. meeting_throws V P m)"
  by (auto simp: build_html_blocks meeting_blocks_def isl_and_then isl_sequence meeting_step_throws)

lemma id_is_prop_of: "\<not> nullish m \<Longrightarrow> id_is n m = strict_eq_num (prop_of m ''id'') n"
  by (simp add: id_is_def get_prop_prop_of)

lemma respond_throws: "isl (respond V P mid recData) = body_throws V P mid recData"
proof (cases "nullish recData")
  case True
  then show ?thesis by (simp add: respond_def body_throws_def get_prop_prop_of)
next
  case False
  show ?thesis
  proof (cases "or_else (prop_of recData ''meetings'') (Arr [])")
    case (Arr ms)
    have n: "(Null \<in> set ms \<or> Undefined \<in> set ms) = (\<exists>m \<in> set ms. nullish m)"
      by (auto simp: nullish_def)
    have "(\<exists>m \<in> set (filter (id_is (js_Number mid)) ms). meeting_throws V P m) =
          (\<exists>m \<in> set ms. strict_eq_num (prop_of m ''id'') (js_Number mid) \<and> meeting_throws V P m)"
      if "\<not> (\<exists>m \<in> set ms. nullish m)"
      using that by (auto simp: id_is_prop_of)
    then show ?thesis using False Arr
      by (auto simp: respond_def body_throws_def get_prop_prop_of Let_def isl_and_then
            filter_array_id_matches n build_html_throws)
  qed (simp_all add: respond_def body_throws_def get_prop_prop_of Let_def False)
qed

lemma fetch_recordings_throws:
  "isl (fst (fetch_recordings V P env mid accessToken)) =
     (case fetch P (recordings_request V (user_id env) accessToken) of
        Inl _ \<Rightarrow> True
      | Inr recRes \<Rightarrow>
          if \<not> ok recRes then isl (res_text recRes)
          else (case res_json recRes of
                  Inl _ \<Rightarrow> True
                | Inr recData \<Rightarrow> body_throws V P mid recData))"
  by (simp add: fetch_recordings_def Let_def respond_throws split: sum.splits)

lemma try_block_throws: "isl (fst (try_block V P env)) = flow_throws V P env"
proof (cases "\<exists>a c s mid. env ''ZOOM_ACCOUNT_ID'' = Some a \<and> env ''ZOOM_CLIENT_ID'' = Some c
                \<and> env ''ZOOM_CLIENT_SECRET'' = Some s \<and> env ''MEETING_ID'' = Some mid
                \<and> a \<noteq> [] \<and> c \<noteq> [] \<and> s \<noteq> [] \<and> mid \<noteq> []")
  case True
  then obtain a c s mid where configured:
      "env ''ZOOM_ACCOUNT_ID'' = Some a" "env ''ZOOM_CLIENT_ID'' = Some c"
      "env ''ZOOM_CLIENT_SECRET'' = Some s" "env ''MEETING_ID'' = Some mid"
      "a \<noteq> []" "c \<noteq> []" "s \<noteq> []" "mid \<noteq> []"
    by blast
  show ?thesis
    unfolding try_block_configured [OF configured]
    using configured
    by (simp add: flow_throws_def get_prop_prop_of fetch_recordings_throws split: sum.splits)
next
  case False
  then have "\<not> flow_throws V P env"
    by (auto simp: flow_throws_def split: option.splits)
  moreover have "try_block V P env = (Inr missing_env_response, [])"
    using False by (cases rule: try_block_cases [of V P env]) auto
  ultimately show ?thesis by simp
qed

lemma fetch_recordings_throw_events:
  assumes "fst (fetch_recordings V P env mid accessToken) = Inl err"
  shows "snd (fetch_recordings V P env mid accessToken)
           = map Fetch [recordings_request V (user_id env) accessToken]"
  using assms by (auto simp: fetch_recordings_def Let_def split: sum.splits if_splits)

lemma try_block_throw_events:
  assumes "fst (try_block V P env) = Inl err"
  shows "\<exists>requests. snd (try_block V P env) = map Fetch requests"
proof (cases rule: try_block_cases [of V P env])
  case missing
  then show ?thesis using assms by simp
next
  case (configured a c s mid)
  have "snd (try_block V P env) = map Fetch [token_request a c s]
      \<or> (\<exists>accessToken. snd (try_block V P env)
            = map Fetch [token_request a c s, recordings_request V (user_id env) accessToken])"
    using assms fetch_recordings_throw_events [of V P env mid _ err]
    unfolding try_block_configured [OF configured]
    by (auto split: sum.splits if_splits)
  then show ?thesis by blast
qed

text \<open>A page holds the head, whole meeting blocks or the message, and the tail.\<close>

lemma respond_whole_page:
  assumes "respond V P mid recData = Inr res"
  shows \<open>\<exists>blocks. (\<forall>b \<in> set blocks. \<exists>inner. b = ''<div class="meeting">'' @ inner @ ''</div>'')
     \<and> res = html_response
               (page_head V mid
                @ (if blocks = [] then ''<p>No recordings found yet for this meeting.</p>''
                   else concat blocks)
                @ page_tail V)\<close>
proof -
  from assms obtain filtered html where h: "build_html V P mid filtered = Inr html"
    and res: "res = html_response html"
    by (auto simp: respond_def Let_def and_then_eq_Inr)
  show ?thesis
  proof (cases "filtered = []")
    case True
    then have "html = page_head V mid @ ''<p>No recordings found yet for this meeting.</p>'' @ page_tail V"
      using h by (simp add: build_html_blocks no_recordings_def)
    then show ?thesis using res by (intro exI [where x = "[]"]) simp
  next
    case False
    then obtain blocks where bl: "meeting_blocks V P filtered = Inr blocks"
      and html: "html = page_head V mid @ concat blocks @ page_tail V"
      using h by (auto simp: build_html_blocks and_then_eq_Inr)
    from bl have "length blocks = length filtered"
      using sequence_length [of "map (meeting_step V P []) filtered" blocks]
      by (simp add: meeting_blocks_def)
    then have ne: "blocks \<noteq> []" using False by auto
    from bl have "list_all2 (\<lambda>m b. meeting_step V P [] m = Inr b) filtered blocks"
      by (simp add: meeting_blocks_def sequence_list_all2)
    then have "\<forall>b \<in> set blocks. \<exists>m. meeting_step V P [] m = Inr b"
      by (induction rule: list_all2_induct) auto
    then have \<open>\<forall>b \<in> set blocks. \<exists>inner. b = ''<div class="meeting">'' @ inner @ ''</div>''\<close>
      using meeting_step_block [of V P] by (fastforce simp del: append_assoc)
    then show ?thesis using res html ne by (intro exI [where x = blocks]) simp
  qed
qed


lemma example_flow_throws:
  assumes "mid \<noteq> []"
  shows "flow_throws V (example_platform token_ok (Inr \<lparr>status = 200, res_text = t, res_json = j\<rparr>)) (example_env mid) =
    (case j of
       Inl _ \<Rightarrow> True
     | Inr recData \<Rightarrow>
         body_throws V (example_platform token_ok (Inr \<lparr>status = 200, res_text = t, res_json = j\<rparr>)) mid recData)"
  using assms
  by (simp add: flow_throws_def example_env_simps example_platform_fetch example_platform_sel
        token_ok_def ok_def nullish_def prop_of_def split: sum.splits)

lemma example_null_file:
  "respond Plain (example_platform t r) ''222'' null_file_meetings = Inl TypeError"
  "body_throws V (example_platform t r) ''222'' null_file_meetings"
proof -
  have "file_step Plain (example_platform t r) html Null = Inl TypeError" for html
    by (simp add: file_step_def file_step_plain_def)
  then show "respond Plain (example_platform t r) ''222'' null_file_meetings = Inl TypeError"
    by (simp add: respond_def null_file_meetings_def or_else_def filter_array_id_matches
          js_Number_examples build_html_def meeting_step_def meeting_step_plain_def id_is_def
          example_meeting_def example_formatDate example_platform_sel example_file_step)
  show "body_throws V (example_platform t r) ''222'' null_file_meetings"
    by (cases V)
       (simp_all add: body_throws_def null_file_meetings_def prop_of_def or_else_def nullish_def
          example_meeting_def js_Number_examples meeting_throws_def listed_files_def
          file_throws_def Let_def)
qed

lemma example_three_meetings_no_throw:
  "\<not> body_throws Plain (example_platform t r) ''222'' three_meetings"
  by (simp add: body_throws_def three_meetings_def example_meetings_def prop_of_def or_else_def
        nullish_def example_meeting_def recording_file_def js_Number_examples meeting_throws_def
        listed_files_def file_throws_def date_throws_def toString_throws_def timeZone_def
        example_platform_sel example_toLocaleString_def)

subsection \<open>Thrown errors\<close>

text \<open>
  Claim C7. Whenever something is thrown or rejected inside the flow (a rejected request,
  a body that cannot be read or is not JSON, a property read on \<^verbatim>\<open>null\<close>, a value that
  cannot be converted, a throw inside the filter, the sort or a loop callback, told from
  the inputs by \<open>flow_throws\<close>), the handler returns status 500 with the unexpected-error
  message and nothing else, and the last thing it does is to log the error it caught;
  before that it has sent requests only. The handler returns a response in every case.
  When nothing is thrown, the response is one of the three other fixed 500 messages or
  status 200 with a whole page: the head, whole meeting blocks or the no-recordings
  message, and the tail. So an error never comes with HTML, and a page never stops where
  a throw would have stopped it.
\<close>

theorem thrown_errors_caught:
  \<open>(flow_throws V P env \<longrightarrow>
      fst (handler V P env) =
        \<lparr>statusCode = 500, headers = [], body = ''Unexpected error loading recordings.''\<rparr>
      \<and> (\<exists>requests err. snd (handler V P env) =
            map Fetch requests @ [ConsoleError [LogStr ''Unhandled error:'', LogErr err]]))
   \<and> (\<not> flow_throws V P env \<longrightarrow>
        (fst (handler V P env) \<in>
           {\<lparr>statusCode = 500, headers = [],
             body = ''Missing env vars. Set ZOOM_ACCOUNT_ID, ZOOM_CLIENT_ID, ZOOM_CLIENT_SECRET, MEETING_ID in Netlify.''\<rparr>,
            \<lparr>statusCode = 500, headers = [], body = ''Failed to get Zoom token.''\<rparr>,
            \<lparr>statusCode = 500, headers = [], body = ''Failed to fetch recordings from Zoom.''\<rparr>}
         \<or> (\<exists>mid blocks. env ''MEETING_ID'' = Some mid
               \<and> (\<forall>b \<in> set blocks. \<exists>inner. b = ''<div class="meeting">'' @ inner @ ''</div>'')
               \<and> fst (handler V P env) =
                   \<lparr>statusCode = 200, headers = [(''Content-Type'', ''text/html; charset=utf-8'')],
                    body = page_top V @ ''<div class="subtitle">Meeting ID: '' @ mid @ ''</div>''
                           @ after_subtitle V
                           @ (if blocks = [] then ''<p>No recordings found yet for this meeting.</p>''
                              else concat blocks)
                           @ page_tail V\<rparr>)))\<close>
proof (intro conjI impI)
  assume "flow_throws V P env"
  then obtain err where err: "fst (try_block V P env) = Inl err"
    using try_block_throws [of V P env] by (cases "fst (try_block V P env)") auto
  then have h: "handler V P env =
      (unexpected_response,
       snd (try_block V P env) @ [ConsoleError [LogStr ''Unhandled error:'', LogErr err]])"
    by (simp add: handler_of_try_block)
  then show "fst (handler V P env) =
        \<lparr>statusCode = 500, headers = [], body = ''Unexpected error loading recordings.''\<rparr>"
    by (simp add: unexpected_response_def)
  from try_block_throw_events [OF err] obtain requests
    where "snd (try_block V P env) = map Fetch requests" by blast
  then show "\<exists>requests err. snd (handler V P env) =
            map Fetch requests @ [ConsoleError [LogStr ''Unhandled error:'', LogErr err]]"
    using h by auto
next
  assume "\<not> flow_throws V P env"
  then obtain res where res: "fst (try_block V P env) = Inr res"
    using try_block_throws [of V P env] by (cases "fst (try_block V P env)") auto
  then have h: "fst (handler V P env) = res"
    by (simp add: handler_of_try_block)
  consider "res = missing_env_response" | "res = token_failed_response"
    | "res = recordings_failed_response"
    | mid recData where "env ''MEETING_ID'' = Some mid" "respond V P mid recData = Inr res"
    using try_block_returns [OF res] by blast
  then show \<open>fst (handler V P env) \<in>
           {\<lparr>statusCode = 500, headers = [],
             body = ''Missing env vars. Set ZOOM_ACCOUNT_ID, ZOOM_CLIENT_ID, ZOOM_CLIENT_SECRET, MEETING_ID in Netlify.''\<rparr>,
            \<lparr>statusCode = 500, headers = [], body = ''Failed to get Zoom token.''\<rparr>,
            \<lparr>statusCode = 500, headers = [], body = ''Failed to fetch recordings from Zoom.''\<rparr>}
         \<or> (\<exists>mid blocks. env ''MEETING_ID'' = Some mid
               \<and> (\<forall>b \<in> set blocks. \<exists>inner. b = ''<div class="meeting">'' @ inner @ ''</div>'')
               \<and> fst (handler V P env) =
                   \<lparr>statusCode = 200, headers = [(''Content-Type'', ''text/html; charset=utf-8'')],
                    body = page_top V @ ''<div class="subtitle">Meeting ID: '' @ mid @ ''</div>''
                           @ after_subtitle V
                           @ (if blocks = [] then ''<p>No recordings found yet for this meeting.</p>''
                              else concat blocks)
                           @ page_tail V\<rparr>)\<close>
  proof cases
    case 1
    then show ?thesis using h by (simp add: missing_env_response_def)
  next
    case 2
    then show ?thesis using h by (simp add: token_failed_response_def)
  next
    case 3
    then show ?thesis using h by (simp add: recordings_failed_response_def)
  next
    case (4 mid recData)
    from respond_whole_page [OF 4(2)] obtain blocks where
      b: \<open>\<forall>b \<in> set blocks. \<exists>inner. b = ''<div class="meeting">'' @ inner @ ''</div>''\<close>
      and r: \<open>res = html_response
               (page_head V mid
                @ (if blocks = [] then ''<p>No recordings found yet for this meeting.</p>''
                   else concat blocks)
                @ page_tail V)\<close>
      by blast
    have \<open>fst (handler V P env) =
                   \<lparr>statusCode = 200, headers = [(''Content-Type'', ''text/html; charset=utf-8'')],
                    body = page_top V @ ''<div class="subtitle">Meeting ID: '' @ mid @ ''</div>''
                           @ after_subtitle V
                           @ (if blocks = [] then ''<p>No recordings found yet for this meeting.</p>''
                              else concat blocks)
                           @ page_tail V\<rparr>\<close>
      using h r by (simp add: html_response_def page_head_def subtitle_def)
    then show ?thesis using 4(1) b by blast
  qed
qed

theorem thrown_errors_caught_witness:
  "flow_throws Plain (example_platform token_rejects (rec_ok three_meetings)) (example_env ''222'')
   \<and> handler Plain (example_platform token_rejects (rec_ok three_meetings)) (example_env ''222'') =
        (\<lparr>statusCode = 500, headers = [], body = ''Unexpected error loading recordings.''\<rparr>,
         [Fetch (token_request ''acct'' ''client'' ''secret''),
          ConsoleError [LogStr ''Unhandled error:'', LogErr (NetworkError ''fetch failed'')]])
   \<and> flow_throws Rich (example_platform token_ok rec_not_json) (example_env ''222'')
   \<and> fst (handler Rich (example_platform token_ok rec_not_json) (example_env ''222'')) =
        \<lparr>statusCode = 500, headers = [], body = ''Unexpected error loading recordings.''\<rparr>
   \<and> flow_throws Rich (example_platform token_ok rec_null) (example_env ''222'')
   \<and> fst (handler Rich (example_platform token_ok rec_null) (example_env ''222'')) =
        \<lparr>statusCode = 500, headers = [], body = ''Unexpected error loading recordings.''\<rparr>
   \<and> flow_throws Plain (example_platform token_ok (rec_ok null_file_meetings)) (example_env ''222'')
   \<and> handler Plain (example_platform token_ok (rec_ok null_file_meetings)) (example_env ''222'') =
        (\<lparr>statusCode = 500, headers = [], body = ''Unexpected error loading recordings.''\<rparr>,
         [Fetch (token_request ''acct'' ''client'' ''secret''),
          Fetch (recordings_request Plain ''me'' ''tok''),
          ConsoleError [LogStr ''Unhandled error:'', LogErr TypeError]])
   \<and> flow_throws Rich (example_platform token_ok (rec_ok null_file_meetings)) (example_env ''222'')
   \<and> fst (handler Rich (example_platform token_ok (rec_ok null_file_meetings)) (example_env ''222'')) =
        \<lparr>statusCode = 500, headers = [], body = ''Unexpected error loading recordings.''\<rparr>
   \<and> \<not> flow_throws Plain (example_platform token_ok (rec_ok three_meetings)) (example_env ''222'')
   \<and> statusCode (fst (handler Plain (example_platform token_ok (rec_ok three_meetings)) (example_env ''222''))) = 200"
proof -
  have f1: "flow_throws Plain (example_platform token_rejects (rec_ok three_meetings)) (example_env ''222'')"
    by (simp add: flow_throws_def example_env_simps example_platform_fetch token_rejects_def)
  have t1: "try_block Plain (example_platform token_rejects (rec_ok three_meetings)) (example_env ''222'')
      = (Inl (NetworkError ''fetch failed''), [Fetch (token_request ''acct'' ''client'' ''secret'')])"
    by (simp add: try_block_configured [of "example_env ''222''" "''acct''" "''client''" "''secret''" "''222''"]
          example_env_simps example_platform_fetch token_rejects_def)
  have h1: "snd (handler Plain (example_platform token_rejects (rec_ok three_meetings)) (example_env ''222''))
      = [Fetch (token_request ''acct'' ''client'' ''secret''),
         ConsoleError [LogStr ''Unhandled error:'', LogErr (NetworkError ''fetch failed'')]]"
    by (simp add: handler_def t1)
  have f2: "flow_throws Rich (example_platform token_ok rec_not_json) (example_env ''222'')"
    by (simp add: rec_not_json_def example_flow_throws)
  have f3: "flow_throws Rich (example_platform token_ok rec_null) (example_env ''222'')"
    by (simp add: rec_null_def example_flow_throws body_throws_def nullish_def)
  have f4: "flow_throws V (example_platform token_ok (rec_ok null_file_meetings)) (example_env ''222'')" for V
    by (simp add: rec_ok_def example_flow_throws example_null_file [unfolded rec_ok_def])
  have h4: "snd (handler Plain (example_platform token_ok (rec_ok null_file_meetings)) (example_env ''222''))
      = [Fetch (token_request ''acct'' ''client'' ''secret''),
         Fetch (recordings_request Plain ''me'' ''tok''),
         ConsoleError [LogStr ''Unhandled error:'', LogErr TypeError]]"
    by (simp add: rec_ok_def example_handler example_null_file [unfolded rec_ok_def])
  have f6: "\<not> flow_throws Plain (example_platform token_ok (rec_ok three_meetings)) (example_env ''222'')"
    by (simp add: rec_ok_def example_flow_throws example_three_meetings_no_throw [unfolded rec_ok_def])
  have s6: "statusCode (fst (handler Plain (example_platform token_ok (rec_ok three_meetings)) (example_env ''222''))) = 200"
    by (simp add: rec_ok_def example_handler example_respond_222 [unfolded rec_ok_def] html_response_def)
  show ?thesis
    using thrown_errors_caught [of Plain "example_platform token_rejects (rec_ok three_meetings)" "example_env ''222''"]
      thrown_errors_caught [of Rich "example_platform token_ok rec_not_json" "example_env ''222''"]
      thrown_errors_caught [of Rich "example_platform token_ok rec_null" "example_env ''222''"]
      thrown_errors_caught [of Plain "example_platform token_ok (rec_ok null_file_meetings)" "example_env ''222''"]
      thrown_errors_caught [of Rich "example_platform token_ok (rec_ok null_file_meetings)" "example_env ''222''"]
      thrown_errors_caught [of Plain "example_platform token_ok (rec_ok three_meetings)" "example_env ''222''"]
      f1 h1 f2 f3 f4 h4 f6 s6
    by (simp add: prod_eq_iff)
qed

text \<open>Two more throws: a body that is not JSON, and a body that is JSON \<^verbatim>\<open>null\<close>.\<close>

lemma not_json_is_caught:
  "fst (handler Rich (example_platform token_ok rec_not_json) (example_env ''222'')) = unexpected_response"
  by (simp add: rec_not_json_def example_handler)

lemma null_body_is_caught:
  "handler Rich (example_platform token_ok rec_null) (example_env ''222'') =
     (unexpected_response,
      [Fetch (token_request ''acct'' ''client'' ''secret''), Fetch (recordings_request Rich ''me'' ''tok''),
       ConsoleError [LogStr ''Unhandled error:'', LogErr TypeError]])"
  by (simp add: rec_null_def example_handler respond_def)

subsection \<open>The subtitle\<close>

text \<open>
  Claim C8. Every page the handler returns (status 200: the configuration is present,
  both upstream calls succeeded and the rendering ran to its end) starts with the text
  before the subtitle and then holds the element
  \<^verbatim>\<open><div class="subtitle">Meeting ID: ...</div>\<close> with the value of \<^verbatim>\<open>MEETING_ID\<close> in it
  as configured, character for character. The rendering of an empty list of matching
  meetings is that text, the subtitle element, the rest of the head, the no-recordings
  message and the tail: the subtitle is there when nothing matches. And whatever list of
  meetings the rendering is given, the page it returns starts that way.
\<close>

theorem subtitle_echoes_meeting_id:
  \<open>(statusCode (fst (handler V P env)) = 200 \<longrightarrow>
      (\<exists>mid rest. env ''MEETING_ID'' = Some mid
         \<and> body (fst (handler V P env)) =
             page_top V @ ''<div class="subtitle">Meeting ID: '' @ mid @ ''</div>'' @ rest))
   \<and> build_html V P MEETING_ID [] =
       Inr (page_top V @ ''<div class="subtitle">Meeting ID: '' @ MEETING_ID @ ''</div>''
            @ after_subtitle V @ ''<p>No recordings found yet for this meeting.</p>'' @ page_tail V)
   \<and> (\<forall>filtered html. build_html V P MEETING_ID filtered = Inr html \<longrightarrow>
         (\<exists>rest. html = page_top V @ ''<div class="subtitle">Meeting ID: '' @ MEETING_ID @ ''</div>''
                         @ rest))\<close>
proof (intro conjI impI allI)
  assume ok: "statusCode (fst (handler V P env)) = 200"
  have "fst (handler V P env) \<notin> {missing_env_response, token_failed_response,
                                 recordings_failed_response, unexpected_response}"
    using ok
    by (auto simp: missing_env_response_def token_failed_response_def
          recordings_failed_response_def unexpected_response_def)
  then obtain mid inner where "env ''MEETING_ID'' = Some mid"
      "fst (handler V P env) = html_response (page_head V mid @ inner @ page_tail V)"
    using handler_response_cases [of V P env] by blast
  then show \<open>\<exists>mid rest. env ''MEETING_ID'' = Some mid
         \<and> body (fst (handler V P env)) =
             page_top V @ ''<div class="subtitle">Meeting ID: '' @ mid @ ''</div>'' @ rest\<close>
    by (simp add: html_response_def page_head_def subtitle_def)
next
  show \<open>build_html V P MEETING_ID [] =
       Inr (page_top V @ ''<div class="subtitle">Meeting ID: '' @ MEETING_ID @ ''</div>''
            @ after_subtitle V @ ''<p>No recordings found yet for this meeting.</p>'' @ page_tail V)\<close>
    by (simp add: build_html_def page_head_def subtitle_def no_recordings_def)
next
  fix filtered html
  assume "build_html V P MEETING_ID filtered = Inr html"
  then show \<open>\<exists>rest. html = page_top V @ ''<div class="subtitle">Meeting ID: '' @ MEETING_ID @ ''</div>''
                         @ rest\<close>
    by (auto simp: build_html_blocks page_head_def subtitle_def and_then_eq_Inr split: if_splits)
qed

theorem subtitle_echoes_meeting_id_witness:
  \<open>statusCode (fst (handler Rich (example_platform token_ok (rec_ok three_meetings)) (example_env ''999''))) = 200
   \<and> (\<exists>rest. body (fst (handler Rich (example_platform token_ok (rec_ok three_meetings)) (example_env ''999'')))
        = page_top Rich @ ''<div class="subtitle">Meeting ID: 999</div>'' @ rest)\<close>
proof -
  have r: "respond Rich (example_platform token_ok (rec_ok three_meetings)) ''999'' three_meetings
      = Inr (html_response (page_head Rich ''999'' @ no_recordings @ page_tail Rich))"
    by (rule respond_no_match [where m = "Arr example_meetings" and ms = example_meetings])
       (simp_all add: three_meetings_def example_meetings_def or_else_def js_Number_examples)
  have s: "statusCode (fst (handler Rich (example_platform token_ok (rec_ok three_meetings)) (example_env ''999''))) = 200"
    by (simp add: rec_ok_def example_handler r [unfolded rec_ok_def] html_response_def)
  show ?thesis
    using subtitle_echoes_meeting_id [of Rich "example_platform token_ok (rec_ok three_meetings)"
        "example_env ''999''"] s
    by (simp add: example_env_simps)
qed

subsection \<open>A meeting id that is not a number\<close>

text \<open>
  Claim C10. Let \<^verbatim>\<open>MEETING_ID\<close> be a non-empty string that \<^verbatim>\<open>Number\<close> reads as \<^verbatim>\<open>NaN\<close>, and
  let both upstream calls succeed: the token answer is 2xx with a JSON body that yields
  an access token, the recordings answer is 2xx with a JSON body whose \<^verbatim>\<open>meetings\<close> is
  absent (or falsy) or an array of meetings (no \<^verbatim>\<open>null\<close> in it). Then no id equals
  \<^verbatim>\<open>NaN\<close>, the handler does not fail, and it returns status 200 with the no-recordings
  page, after exactly the two requests and without logging an error.
\<close>

theorem unparsable_meeting_id:
  assumes "env ''ZOOM_ACCOUNT_ID'' = Some a" "env ''ZOOM_CLIENT_ID'' = Some c"
    "env ''ZOOM_CLIENT_SECRET'' = Some s" "env ''MEETING_ID'' = Some mid"
    "a \<noteq> []" "c \<noteq> []" "s \<noteq> []" "mid \<noteq> []"
    and "js_Number mid = NaN"
    and "fetch P (token_request a c s) = Inr tokenRes" "ok tokenRes"
      "res_json tokenRes = Inr tokenData" "get_prop tokenData ''access_token'' = Inr token"
      "js_ToString (numberToString P) token = Inr accessToken"
    and "fetch P (recordings_request V (user_id env) accessToken) = Inr recRes" "ok recRes"
      "res_json recRes = Inr recData" "get_prop recData ''meetings'' = Inr m"
      "array_of (or_else m (Arr [])) = Inr ms" "Null \<notin> set ms" "Undefined \<notin> set ms"
  shows "handler V P env =
    (\<lparr>statusCode = 200, headers = [(''Content-Type'', ''text/html; charset=utf-8'')],
      body = page_head V mid @ ''<p>No recordings found yet for this meeting.</p>'' @ page_tail V\<rparr>,
     [Fetch (token_request a c s), Fetch (recordings_request V (user_id env) accessToken)])"
proof -
  have "filter (id_is (js_Number mid)) ms = []"
    using assms(9) by (simp add: id_is_NaN)
  then have "respond V P mid recData =
      Inr (html_response (page_head V mid @ no_recordings @ page_tail V))"
    using respond_no_match assms(18-21) by blast
  then show ?thesis
    using assms(10-17)
    by (simp add: handler_def try_block_configured [OF assms(1-8)] fetch_recordings_def Let_def
          html_response_def no_recordings_def)
qed

theorem unparsable_meeting_id_witness:
  "js_Number ''abc'' = NaN
   \<and> handler Plain (example_platform token_ok (rec_ok three_meetings)) (example_env ''abc'') =
    (\<lparr>statusCode = 200, headers = [(''Content-Type'', ''text/html; charset=utf-8'')],
      body = page_head Plain ''abc'' @ ''<p>No recordings found yet for this meeting.</p>'' @ page_tail Plain\<rparr>,
     [Fetch (token_request ''acct'' ''client'' ''secret''), Fetch (recordings_request Plain ''me'' ''tok'')])"
  using unparsable_meeting_id [of "example_env ''abc''" "''acct''" "''client''" "''secret''" "''abc''"
      "example_platform token_ok (rec_ok three_meetings)"
      "\<lparr>status = 200, res_text = Inr (''{'' @ [CHR 0x22] @ ''access_token'' @ [CHR 0x22] @ '':''
                                    @ [CHR 0x22] @ ''tok'' @ [CHR 0x22] @ ''}''),
          res_json = Inr (Obj [(''access_token'', Str ''tok'')])\<rparr>"
      "Obj [(''access_token'', Str ''tok'')]" "Str ''tok''" "''tok''" Plain
      "\<lparr>status = 200, res_text = Inr [], res_json = Inr three_meetings\<rparr>" three_meetings
      "Arr example_meetings"
      example_meetings]
  by (simp add: example_env_simps example_platform_fetch example_platform_sel token_ok_def rec_ok_def
        ok_def three_meetings_def example_meetings_def or_else_def js_Number_examples)

end
